theory Spec2Isabelle
  imports Complex_Main "HOL-Library.Word" "HOL-Library.AList" "HOL-Library.Multiset"
begin

unbundle bit_operations_syntax

section \<open>Instance slot pool (InstancePool)\<close>

text \<open>
  The pool hands out integer instance ids. \<open>activeInstances\<close> is the JavaScript
  \<open>Set<number>\<close> (only \<open>add\<close>, \<open>delete\<close>, \<open>size\<close> and \<open>clear\<close> are used on it),
  \<open>freeIds\<close> is the array used as a stack whose top is the last element
  (\<open>push\<close> appends, \<open>pop\<close> removes the last), \<open>nextId\<close> is the running counter.
  Counts and ids are integers.
\<close>

record InstancePool =
  activeInstances :: "int set"
  freeIds :: "int list"
  nextId :: int
  maxInstances :: int

definition InstancePool_new :: "int \<Rightarrow> InstancePool" where
  "InstancePool_new m =
     \<lparr>activeInstances = {}, freeIds = [], nextId = 0, maxInstances = m\<rparr>"

text \<open>\<open>acquire()\<close>: reuse the most recently freed id, else mint \<open>nextId\<close> while it is
  below \<open>maxInstances\<close>, else \<open>null\<close> (here \<open>None\<close>).\<close>

definition acquire :: "InstancePool \<Rightarrow> int option \<times> InstancePool" where
  "acquire p =
     (if length (freeIds p) > 0 then
        (let i = last (freeIds p) in
           (Some i, p\<lparr>freeIds := butlast (freeIds p),
                       activeInstances := insert i (activeInstances p)\<rparr>))
      else if nextId p < maxInstances p then
        (let i = nextId p in
           (Some i, p\<lparr>nextId := nextId p + 1,
                       activeInstances := insert i (activeInstances p)\<rparr>))
      else (None, p))"

text \<open>\<open>release(id)\<close>: \<open>Set.delete\<close> answers whether the id was present; only then is
  the id pushed on the free list.\<close>

definition release :: "int \<Rightarrow> InstancePool \<Rightarrow> InstancePool" where
  "release i p =
     (if i \<in> activeInstances p then
        p\<lparr>activeInstances := activeInstances p - {i}, freeIds := freeIds p @ [i]\<rparr>
      else p)"

definition getActiveCount :: "InstancePool \<Rightarrow> nat" where
  "getActiveCount p = card (activeInstances p)"

definition hasCapacity :: "InstancePool \<Rightarrow> bool" where
  "hasCapacity p \<longleftrightarrow> length (freeIds p) > 0 \<or> nextId p < maxInstances p"

definition clear :: "InstancePool \<Rightarrow> InstancePool" where
  "clear p = p\<lparr>activeInstances := {}, freeIds := [], nextId := 0\<rparr>"

text \<open>A client's call sequence on one pool.\<close>

datatype pool_call = Acquire | Release int

fun pool_step :: "InstancePool \<Rightarrow> pool_call \<Rightarrow> InstancePool" where
  "pool_step p Acquire = snd (acquire p)"
| "pool_step p (Release i) = release i p"

definition pool_run :: "InstancePool \<Rightarrow> pool_call list \<Rightarrow> InstancePool" where
  "pool_run p cs = foldl pool_step p cs"

text \<open>The invariant kept by every call: all ids in use or on the free list were minted
  by the counter, and the counter never passes the capacity.\<close>

definition pool_inv :: "InstancePool \<Rightarrow> bool" where
  "pool_inv p \<longleftrightarrow>
     0 \<le> nextId p \<and> nextId p \<le> maxInstances p \<and>
     activeInstances p \<subseteq> {0..<nextId p} \<and>
     set (freeIds p) \<subseteq> {0..<nextId p} \<and>
     distinct (freeIds p) \<and>
     set (freeIds p) \<inter> activeInstances p = {}"

section \<open>JavaScript numbers\<close>

text \<open>
  A JavaScript \<open>number\<close> is modelled as a real; integer-valued computations below
  \<open>2^53\<close> are exact in doubles. Where a division can meet a zero divisor the result is a
  \<open>jsnum\<close>, which adds the two infinities and NaN.
\<close>

datatype jsnum = Num real | PosInf | NegInf | NaN

definition js_div :: "real \<Rightarrow> real \<Rightarrow> jsnum" where
  "js_div a b =
     (if b \<noteq> 0 then Num (a / b)
      else if a > 0 then PosInf else if a < 0 then NegInf else NaN)"

text \<open>The comparisons \<open><\<close> and \<open>>\<close> against a finite number; every comparison
  with NaN is false.\<close>

fun js_lt :: "jsnum \<Rightarrow> real \<Rightarrow> bool" where
  "js_lt (Num a) b \<longleftrightarrow> a < b"
| "js_lt NegInf b \<longleftrightarrow> True"
| "js_lt PosInf b \<longleftrightarrow> False"
| "js_lt NaN b \<longleftrightarrow> False"

fun js_gt :: "jsnum \<Rightarrow> real \<Rightarrow> bool" where
  "js_gt (Num a) b \<longleftrightarrow> a > b"
| "js_gt PosInf b \<longleftrightarrow> True"
| "js_gt NegInf b \<longleftrightarrow> False"
| "js_gt NaN b \<longleftrightarrow> False"

fun js_ge :: "jsnum \<Rightarrow> real \<Rightarrow> bool" where
  "js_ge (Num a) b \<longleftrightarrow> a \<ge> b"
| "js_ge PosInf b \<longleftrightarrow> True"
| "js_ge NegInf b \<longleftrightarrow> False"
| "js_ge NaN b \<longleftrightarrow> False"

text \<open>The remainder operator \<open>%\<close> on integers: the result takes the sign of the
  dividend.\<close>

definition js_rem :: "int \<Rightarrow> int \<Rightarrow> int" where
  "js_rem a n = sgn a * (\<bar>a\<bar> mod \<bar>n\<bar>)"

text \<open>\<open>ToInt32\<close>, applied by \<open>^\<close> to each operand: drop the fraction (towards zero),
  keep the low 32 bits, read them as two's complement. \<open>>>> 0\<close> reads the low 32 bits
  as unsigned.\<close>

definition js_trunc :: "real \<Rightarrow> int" where
  "js_trunc r = (if r \<ge> 0 then \<lfloor>r\<rfloor> else \<lceil>r\<rceil>)"

definition ToInt32 :: "real \<Rightarrow> int" where
  "ToInt32 r = signed_take_bit 31 (js_trunc r)"

definition ushr0 :: "int \<Rightarrow> int" where
  "ushr0 k = take_bit 32 k"

section \<open>Chunk seed\<close>

text \<open>The expression
  \<open>((x * 73856093) ^ (z * 19349663) ^ this.config.randomSeed) >>> 0\<close>
  of \<open>activateChunk\<close> (seed of the chunk's noise field) and of every
  \<open>populateChunk\<close> (seed of the chunk's generator), which receives the same \<open>x\<close>
  and \<open>z\<close>.\<close>

definition chunkSeed :: "real \<Rightarrow> real \<Rightarrow> real \<Rightarrow> int" where
  "chunkSeed x z randomSeed =
     ushr0 ((ToInt32 (x * 73856093) XOR ToInt32 (z * 19349663)) XOR ToInt32 randomSeed)"


section \<open>Level of detail\<close>

record LODLevel =
  distance :: real
  densityMultiplier :: real
  scaleMultiplier :: "real option"

record LODConfig =
  levels :: "LODLevel list"
  blendDistance :: "real option"

type_synonym vec3 = "real \<times> real \<times> real"

text \<open>The loop \<open>for (let i = levels.length - 1; i >= 0; i--)\<close> of
  \<open>getLODDensityMultiplier\<close>; the argument \<open>Suc i\<close> stands for the loop index
  \<open>i\<close>, and \<open>0\<close> for the loop having run out.\<close>

fun lodDensityLoop :: "LODLevel list \<Rightarrow> real \<Rightarrow> real \<Rightarrow> nat \<Rightarrow> real" where
  "lodDensityLoop lv blend camDist 0 = 1"
| "lodDensityLoop lv blend camDist (Suc i) =
     (if camDist \<ge> distance (lv ! i) then
        (if blend > 0 \<and> i < length lv - 1 then
           (let nextLevel = lv ! (i + 1);
                transitionStart = distance (lv ! i);
                transitionEnd = distance nextLevel
            in if camDist < transitionStart + blend \<and> camDist < transitionEnd then
                 (let t = (camDist - transitionStart) / blend;
                      clampedT = min 1 (max 0 t)
                  in densityMultiplier (lv ! i) * (1 - clampedT)
                     + densityMultiplier nextLevel * clampedT)
               else densityMultiplier (lv ! i))
         else densityMultiplier (lv ! i))
      else lodDensityLoop lv blend camDist i)"

text \<open>\<open>getLODDensityMultiplier(chunkCenterX, chunkCenterZ)\<close>, with the current camera
  position (if any) and \<open>config.lod\<close> as arguments.\<close>

definition getLODDensityMultiplier ::
    "vec3 option \<Rightarrow> LODConfig option \<Rightarrow> real \<Rightarrow> real \<Rightarrow> real" where
  "getLODDensityMultiplier camera lod chunkCenterX chunkCenterZ =
     (case (camera, lod) of
        (Some (cx, cy, cz), Some l) \<Rightarrow>
          (if levels l = [] then 1
           else
             (let dx = chunkCenterX - cx;
                  dz = chunkCenterZ - cz;
                  camDist = sqrt (dx * dx + dz * dz);
                  blend = (case blendDistance l of Some b \<Rightarrow> b | None \<Rightarrow> 0)
              in lodDensityLoop (levels l) blend camDist (length (levels l))))
      | _ \<Rightarrow> 1)"

section \<open>Density map\<close>

datatype channel = R | G | B | A

fun channelOffset :: "channel \<Rightarrow> int" where
  "channelOffset R = 0"
| "channelOffset G = 1"
| "channelOffset B = 2"
| "channelOffset A = 3"

text \<open>\<open>worldBounds\<close> is a \<open>THREE.Box2\<close>: \<open>min\<close> and \<open>max\<close> corners.\<close>

record DensityMapConfig =
  channel :: "channel option"
  boundsMin :: "real \<times> real"
  boundsMax :: "real \<times> real"
  multiplier :: "real option"

text \<open>The texture coordinates \<open>u\<close>, \<open>v\<close> computed by \<open>sampleDensityMap\<close>.\<close>

definition densityUV :: "DensityMapConfig \<Rightarrow> real \<Rightarrow> real \<Rightarrow> jsnum \<times> jsnum" where
  "densityUV c worldX worldZ =
     (js_div (worldX - fst (boundsMin c)) (fst (boundsMax c) - fst (boundsMin c)),
      js_div (worldZ - snd (boundsMin c)) (snd (boundsMax c) - snd (boundsMin c)))"

text \<open>\<open>sampleDensityMap(worldX, worldZ)\<close>. The arguments are \<open>densityMapData\<close> (the
  RGBA bytes, when loaded), the image size \<open>(width, height)\<close> of \<open>densityMapTexture\<close>
  (when loaded) and \<open>config.densityMap\<close>. A read outside the byte array is
  \<open>undefined\<close>, which the division by 255 turns into NaN; so does a NaN coordinate.\<close>

definition sampleDensityMap ::
    "nat list option \<Rightarrow> (int \<times> int) option \<Rightarrow> DensityMapConfig option \<Rightarrow>
     real \<Rightarrow> real \<Rightarrow> jsnum" where
  "sampleDensityMap densityMapData densityMapTexture densityMap worldX worldZ =
     (case (densityMapData, densityMapTexture, densityMap) of
        (Some d, Some (width, height), Some c) \<Rightarrow>
          (case densityUV c worldX worldZ of (u, v) \<Rightarrow>
             if js_lt u 0 \<or> js_gt u 1 \<or> js_lt v 0 \<or> js_gt v 1 then Num 1
             else
               (case (u, v) of
                  (Num u', Num v') \<Rightarrow>
                    (let px = \<lfloor>u' * (real_of_int width - 1)\<rfloor>;
                         py = \<lfloor>(1 - v') * (real_of_int height - 1)\<rfloor>;
                         idx = (py * width + px) * 4;
                         k = idx + channelOffset (case channel c of Some ch \<Rightarrow> ch | None \<Rightarrow> R)
                     in if 0 \<le> k \<and> k < int (length d)
                        then Num (real (d ! nat k) / 255 *
                                  (case multiplier c of Some m \<Rightarrow> m | None \<Rightarrow> 1))
                        else NaN)
                | _ \<Rightarrow> NaN))
      | _ \<Rightarrow> Num 1)"

text \<open>The LOD table of the specification's example: full density from distance 0,
  half density from distance 100, blend distance 20.\<close>

definition lod_example :: LODConfig where
  "lod_example =
     \<lparr>levels = [\<lparr>distance = 0, densityMultiplier = 1, scaleMultiplier = None\<rparr>,
                \<lparr>distance = 100, densityMultiplier = 1 / 2, scaleMultiplier = None\<rparr>],
      blendDistance = Some 20\<rparr>"

text \<open>A density map used as an example: a 1 by 1 image whose only pixel has red value 51,
  mapped to the square from (0, 0) to (10, 10), with the default channel and multiplier.\<close>

definition densityMap_example :: DensityMapConfig where
  "densityMap_example =
     \<lparr>channel = None, boundsMin = (0, 0), boundsMax = (10, 10), multiplier = None\<rparr>"

section \<open>Deterministic generator (SeededRandom)\<close>

text \<open>The generator's only state is its seed, an integer. \<open>next()\<close> replaces the seed
  by \<open>(seed * 9301 + 49297) % 233280\<close> and answers \<open>seed / 233280\<close>.\<close>

record SeededRandom =
  seed :: int

definition SeededRandom_new :: "int \<Rightarrow> SeededRandom" where
  "SeededRandom_new s = \<lparr>seed = s\<rparr>"

definition next_rand :: "SeededRandom \<Rightarrow> real \<times> SeededRandom" where
  "next_rand r =
     (let s = js_rem (seed r * 9301 + 49297) 233280
      in (real_of_int s / 233280, r\<lparr>seed := s\<rparr>))"

definition range_rand :: "real \<Rightarrow> real \<Rightarrow> SeededRandom \<Rightarrow> real \<times> SeededRandom" where
  "range_rand lo hi r = (case next_rand r of (v, r') \<Rightarrow> (lo + v * (hi - lo), r'))"

definition rangeInt :: "real \<Rightarrow> real \<Rightarrow> SeededRandom \<Rightarrow> int \<times> SeededRandom" where
  "rangeInt lo hi r = (case range_rand lo (hi + 1) r of (v, r') \<Rightarrow> (\<lfloor>v\<rfloor>, r'))"

definition setSeed :: "int \<Rightarrow> SeededRandom \<Rightarrow> SeededRandom" where
  "setSeed s r = r\<lparr>seed := s\<rparr>"

text \<open>Method calls on a generator and the value each answers (\<open>setSeed\<close> answers
  nothing).\<close>

datatype rng_call = Next | Range real real | RangeInt real real | SetSeed int

fun rng_exec :: "rng_call \<Rightarrow> SeededRandom \<Rightarrow> real option \<times> SeededRandom" where
  "rng_exec Next r = (case next_rand r of (v, r') \<Rightarrow> (Some v, r'))"
| "rng_exec (Range lo hi) r = (case range_rand lo hi r of (v, r') \<Rightarrow> (Some v, r'))"
| "rng_exec (RangeInt lo hi) r = (case rangeInt lo hi r of (v, r') \<Rightarrow> (Some (of_int v), r'))"
| "rng_exec (SetSeed s) r = (None, setSeed s r)"

text \<open>Generator instances live in an object store: \<open>new SeededRandom(seed)\<close> allocates a
  fresh reference, a method call on a reference updates that object in place. A schedule
  is a sequence of method calls, each on some reference; running it collects, per call, the
  reference and the value answered. A call on a reference that holds no object fails.\<close>

record rng_store =
  objects :: "nat \<rightharpoonup> SeededRandom"
  nextRef :: nat

definition new_SeededRandom :: "int \<Rightarrow> rng_store \<Rightarrow> nat \<times> rng_store" where
  "new_SeededRandom s h =
     (nextRef h, h\<lparr>objects := (objects h)(nextRef h \<mapsto> SeededRandom_new s),
                   nextRef := nextRef h + 1\<rparr>)"

definition store_call :: "nat \<Rightarrow> rng_call \<Rightarrow> rng_store \<Rightarrow> (real option \<times> rng_store) option" where
  "store_call a c h =
     (case objects h a of
        None \<Rightarrow> None
      | Some r \<Rightarrow> (case rng_exec c r of (v, r') \<Rightarrow> Some (v, h\<lparr>objects := (objects h)(a \<mapsto> r')\<rparr>)))"

fun store_run :: "(nat \<times> rng_call) list \<Rightarrow> rng_store \<Rightarrow> ((nat \<times> real option) list \<times> rng_store) option" where
  "store_run [] h = Some ([], h)"
| "store_run ((a, c) # cs) h =
     (case store_call a c h of
        None \<Rightarrow> None
      | Some (v, h') \<Rightarrow>
          (case store_run cs h' of
             None \<Rightarrow> None
           | Some (vs, h'') \<Rightarrow> Some ((a, v) # vs, h'')))"

definition calls_on :: "nat \<Rightarrow> (nat \<times> 'a) list \<Rightarrow> 'a list" where
  "calls_on a cs = map snd (filter (\<lambda>e. fst e = a) cs)"

text \<open>A call sequence driven on a single generator, outside any store.\<close>

fun rng_run :: "rng_call list \<Rightarrow> SeededRandom \<Rightarrow> real option list \<times> SeededRandom" where
  "rng_run [] r = ([], r)"
| "rng_run (c # cs) r =
     (case rng_exec c r of (v, r') \<Rightarrow> (case rng_run cs r' of (vs, r'') \<Rightarrow> (v # vs, r'')))"

definition empty_store :: rng_store where
  "empty_store = \<lparr>objects = Map.empty, nextRef = 0\<rparr>"

text \<open>An example schedule on the references 0 and 1: the same three calls on each,
  interleaved.\<close>

definition sched_example :: "(nat \<times> rng_call) list" where
  "sched_example =
     [(0, Next), (0, Range 0 10), (1, Next), (0, RangeInt 1 6), (1, Range 0 10), (1, RangeInt 1 6)]"

section \<open>Noise field (PerlinNoise)\<close>

text \<open>The Fisher-Yates loop \<open>for (let i = 255; i > 0; i--)\<close> of the constructor, with the
  loop index as first argument. The swap \<open>[p[i], p[j]] = [p[j], p[i]]\<close> reads both
  entries before writing. An index \<open>j\<close> outside \<open>0..i\<close> (it arises only from a negative
  generator state) would leave \<open>undefined\<close> holes in the table; such a table is not
  represented, the answer is \<open>None\<close>.\<close>

fun shuffle :: "nat \<Rightarrow> int list \<Rightarrow> SeededRandom \<Rightarrow> (int list \<times> SeededRandom) option" where
  "shuffle 0 p rng = Some (p, rng)"
| "shuffle (Suc k) p rng =
     (case next_rand rng of (v, rng') \<Rightarrow>
        (let i = Suc k;
             j = \<lfloor>v * (real i + 1)\<rfloor>
         in if 0 \<le> j \<and> j \<le> int i
            then shuffle k (p[i := p ! nat j, nat j := p ! i]) rng'
            else None))"

record PerlinNoise =
  permutation :: "int list"

definition PerlinNoise_new :: "int \<Rightarrow> PerlinNoise option" where
  "PerlinNoise_new s =
     (case shuffle 255 (map int [0..<256]) (SeededRandom_new s) of
        None \<Rightarrow> None
      | Some (p, rng) \<Rightarrow>
          Some \<lparr>permutation = map (\<lambda>i. p ! nat (int i AND 255)) [0..<512]\<rparr>)"

definition fade :: "real \<Rightarrow> real" where
  "fade t = t * t * t * (t * (t * 6 - 15) + 10)"

definition lerp :: "real \<Rightarrow> real \<Rightarrow> real \<Rightarrow> real" where
  "lerp a b t = a + t * (b - a)"

definition grad :: "int \<Rightarrow> real \<Rightarrow> real \<Rightarrow> real" where
  "grad hash x y =
     (let h = hash AND 3;
          u = (if h < 2 then x else y);
          v = (if h < 2 then y else x)
      in (if h AND 1 \<noteq> 0 then - u else u) + (if h AND 2 \<noteq> 0 then - 2 * v else 2 * v))"

text \<open>\<open>noise2D(x, y)\<close>. The table has 512 entries between 0 and 255, so every index
  read below is inside the table.\<close>

definition noise2D :: "PerlinNoise \<Rightarrow> real \<Rightarrow> real \<Rightarrow> real" where
  "noise2D n x0 y0 =
     (let perm = permutation n;
          X = \<lfloor>x0\<rfloor> AND 255;
          Y = \<lfloor>y0\<rfloor> AND 255;
          x = x0 - of_int \<lfloor>x0\<rfloor>;
          y = y0 - of_int \<lfloor>y0\<rfloor>;
          u = fade x;
          v = fade y;
          a = perm ! nat X + Y;
          b = perm ! nat (X + 1) + Y
      in (lerp
            (lerp (grad (perm ! nat a) x y) (grad (perm ! nat b) (x - 1) y) u)
            (lerp (grad (perm ! nat (a + 1)) x (y - 1)) (grad (perm ! nat (b + 1)) (x - 1) (y - 1)) u)
            v + 1) * (1 / 2))"

text \<open>The octave loop of \<open>fbm2D\<close>; the first argument counts the octaves still to
  run, the last four are \<open>value\<close>, \<open>amplitude\<close>, \<open>frequency\<close> and \<open>maxValue\<close>.\<close>

fun fbmLoop ::
    "nat \<Rightarrow> PerlinNoise \<Rightarrow> real \<Rightarrow> real \<Rightarrow> real \<Rightarrow> real \<Rightarrow>
     real \<Rightarrow> real \<Rightarrow> real \<Rightarrow> real \<Rightarrow> real \<times> real" where
  "fbmLoop 0 n x y persistence lacunarity val amplitude frequency maxValue = (val, maxValue)"
| "fbmLoop (Suc k) n x y persistence lacunarity val amplitude frequency maxValue =
     fbmLoop k n x y persistence lacunarity
       (val + noise2D n (x * frequency) (y * frequency) * amplitude)
       (amplitude * persistence) (frequency * lacunarity) (maxValue + amplitude)"

definition fbm2D ::
    "PerlinNoise \<Rightarrow> real \<Rightarrow> real \<Rightarrow> nat \<Rightarrow> real \<Rightarrow> real \<Rightarrow> real \<Rightarrow> jsnum" where
  "fbm2D n x y octaves persistence lacunarity scale =
     (case fbmLoop octaves n (x * scale) (y * scale) persistence lacunarity 0 1 1 0 of
        (val, maxValue) \<Rightarrow> js_div val maxValue)"

text \<open>The first \<open>m\<close> rounds of the shuffle on a generator whose state is not negative,
  in integer arithmetic: the state after \<open>next()\<close> is \<open>(s * 9301 + 49297) mod 233280\<close>
  and the index drawn in round \<open>i\<close> is \<open>s' * (i + 1) div 233280\<close>.\<close>

definition lcg :: "int \<Rightarrow> int" where
  "lcg s = (s * 9301 + 49297) mod 233280"

definition drawIndex :: "int \<Rightarrow> nat \<Rightarrow> nat" where
  "drawIndex s' i = nat (s' * (int i + 1) div 233280)"

definition swapEntries :: "int list \<Rightarrow> nat \<Rightarrow> nat \<Rightarrow> int list" where
  "swapEntries p i j = p[i := p ! j, j := p ! i]"

fun shuffleRounds :: "nat \<Rightarrow> nat \<Rightarrow> int list \<Rightarrow> int \<Rightarrow> int list \<times> int" where
  "shuffleRounds 0 i p s = (p, s)"
| "shuffleRounds (Suc m) i p s =
     shuffleRounds m (i - 1) (swapEntries p i (drawIndex (lcg s) i)) (lcg s)"

section \<open>Chunks and the streaming core (BaseScatterSystem)\<close>

text \<open>An instance transform as passed to the converter: position, Euler rotation and
  scale. A box has finite \<open>x\<close> and \<open>z\<close> bounds; its \<open>y\<close> bounds may be infinite.\<close>

record transform =
  position :: vec3
  rotation :: vec3
  scale :: vec3

record box3 =
  minX :: real
  minY :: jsnum
  minZ :: real
  maxX :: real
  maxY :: jsnum
  maxZ :: real

fun js_le :: "jsnum \<Rightarrow> real \<Rightarrow> bool" where
  "js_le (Num a) b \<longleftrightarrow> a \<le> b"
| "js_le NegInf b \<longleftrightarrow> True"
| "js_le PosInf b \<longleftrightarrow> False"
| "js_le NaN b \<longleftrightarrow> False"

text \<open>\<open>Box3.containsPoint\<close> of the rendering library.\<close>

definition containsPoint :: "box3 \<Rightarrow> vec3 \<Rightarrow> bool" where
  "containsPoint b p =
     (case p of (x, y, z) \<Rightarrow>
        minX b \<le> x \<and> x \<le> maxX b \<and> js_le (minY b) y \<and> js_ge (maxY b) y \<and>
        minZ b \<le> z \<and> z \<le> maxZ b)"

text \<open>The converter keeps one transform per instance index below \<open>instanceCount\<close>;
  \<open>hideInstance\<close> zeroes the rendered matrix of an index, \<open>setInstanceTransform\<close> stores
  the transform and renders it again. Both ignore an index out of range.\<close>

record converter =
  instanceCount :: int
  instanceTransforms :: "int \<Rightarrow> transform"
  hiddenInstances :: "int set"

definition converter_new :: "int \<Rightarrow> converter" where
  "converter_new n =
     \<lparr>instanceCount = n,
      instanceTransforms = (\<lambda>i. \<lparr>position = (0, 0, 0), rotation = (0, 0, 0), scale = (1, 1, 1)\<rparr>),
      hiddenInstances = {}\<rparr>"

definition setInstanceTransform :: "int \<Rightarrow> transform \<Rightarrow> converter \<Rightarrow> converter" where
  "setInstanceTransform i t c =
     (if i < 0 \<or> i \<ge> instanceCount c then c
      else c\<lparr>instanceTransforms := (instanceTransforms c)(i := t),
              hiddenInstances := hiddenInstances c - {i}\<rparr>)"

definition hideInstance :: "int \<Rightarrow> converter \<Rightarrow> converter" where
  "hideInstance i c =
     (if i < 0 \<or> i \<ge> instanceCount c then c
      else c\<lparr>hiddenInstances := insert i (hiddenInstances c)\<rparr>)"

record NoiseDistributionConfig =
  enabled :: bool
  noiseScale :: real
  octaves :: nat
  persistence :: real
  lacunarity :: real
  threshold :: real
  power :: real
  offset :: real

text \<open>The fields of the completed configuration that the modelled code reads.\<close>

record ScatterConfig =
  density :: real
  maxInstancesCfg :: int
  visibilityRange :: real
  chunkSize :: real
  scaleRange :: "real \<times> real"
  rotationRange :: "real \<times> real"
  heightOffset :: real
  alignToNormal :: bool
  randomSeed :: real
  noiseDistribution :: NoiseDistributionConfig

type_synonym chunk_key = "int \<times> int"

text \<open>\<open>getChunkKey\<close> builds the string \<open>floor(x)_floor(z)\<close>; the pair of the two
  floors stands for it.\<close>

definition getChunkKey :: "real \<Rightarrow> real \<Rightarrow> chunk_key" where
  "getChunkKey x z = (\<lfloor>x\<rfloor>, \<lfloor>z\<rfloor>)"

record ChunkData =
  instances :: "int list"
  isActive :: bool
  noiseGenerator :: "PerlinNoise option"
  bounds :: box3

datatype event = ChunkActivated chunk_key nat | ChunkDeactivated chunk_key

text \<open>The state of a scatter system: the pool, the converter, the chunk map (a
  JavaScript \<open>Map\<close>, iterated in insertion order; \<open>set\<close> on a present key keeps its
  place), the events emitted so far, and what \<open>update\<close> records of the camera: its
  position and the frustum test on boxes.\<close>

record ScatterSystem =
  instancePool :: InstancePool
  meshConverter :: converter
  chunks :: "(chunk_key \<times> ChunkData) list"
  events :: "event list"
  isInitialized :: bool
  frustumCullingEnabled :: bool
  frustum :: "box3 \<Rightarrow> bool"
  currentCamera :: "vec3 option"

definition ScatterSystem_new :: "ScatterConfig \<Rightarrow> ScatterSystem" where
  "ScatterSystem_new cfg =
     \<lparr>instancePool = InstancePool_new (maxInstancesCfg cfg),
      meshConverter = converter_new (maxInstancesCfg cfg),
      chunks = [],
      events = [],
      isInitialized = False,
      frustumCullingEnabled = True,
      frustum = (\<lambda>b. True),
      currentCamera = None\<rparr>"

definition isChunkInFrustum :: "box3 \<Rightarrow> ScatterSystem \<Rightarrow> bool" where
  "isChunkInFrustum b s = (if \<not> frustumCullingEnabled s then True else frustum s b)"

text \<open>A placement is one pass through the tail of a placement loop: the handle acquired
  and the transform given to \<open>setInstanceTransform\<close>. \<open>populateChunk\<close> is abstract in the
  base class; a strategy's \<open>populateChunk\<close> is a function of the chunk under
  construction, the chunk center and the pool, and answers the placements in the order made
  and the pool after its acquisitions. Its calls of \<open>setInstanceTransform\<close> and its pushes
  onto \<open>chunk.instances\<close> are replayed from the placements by \<open>activateChunk\<close>.\<close>

type_synonym placement = "int \<times> transform"

type_synonym populate =
  "ChunkData \<Rightarrow> real \<Rightarrow> real \<Rightarrow> InstancePool \<Rightarrow> placement list \<times> InstancePool"

definition activateChunk ::
    "populate \<Rightarrow> ScatterConfig \<Rightarrow> real \<Rightarrow> real \<Rightarrow> ScatterSystem \<Rightarrow> ScatterSystem" where
  "activateChunk populateChunk cfg x z s =
     (let key = getChunkKey x z;
          noiseGen = PerlinNoise_new (chunkSeed x z (randomSeed cfg));
          size = chunkSize cfg;
          chunk = \<lparr>instances = [], isActive = True, noiseGenerator = noiseGen,
                   bounds = \<lparr>minX = x - size / 2, minY = Num (- 1000), minZ = z - size / 2,
                             maxX = x + size / 2, maxY = Num 1000, maxZ = z + size / 2\<rparr>\<rparr>
      in case populateChunk chunk x z (instancePool s) of
           (placed, pool') \<Rightarrow>
             s\<lparr>instancePool := pool',
               meshConverter := foldl (\<lambda>c (i, t). setInstanceTransform i t c) (meshConverter s) placed,
               chunks := AList.update key (chunk\<lparr>instances := map fst placed\<rparr>) (chunks s),
               events := events s @ [ChunkActivated key (length placed)]\<rparr>)"

definition deactivateChunk :: "chunk_key \<Rightarrow> ScatterSystem \<Rightarrow> ScatterSystem" where
  "deactivateChunk key s =
     (case map_of (chunks s) key of
        None \<Rightarrow> s
      | Some chunk \<Rightarrow>
          s\<lparr>meshConverter := foldl (\<lambda>c i. hideInstance i c) (meshConverter s) (instances chunk),
            instancePool := foldl (\<lambda>p i. release i p) (instancePool s) (instances chunk),
            chunks := AList.update key (chunk\<lparr>instances := [], isActive := False\<rparr>) (chunks s),
            events := events s @ [ChunkDeactivated key]\<rparr>)"

text \<open>The two statements every \<open>updateChunks\<close> is made of: the guarded activation
  \<open>if (!this.chunks.has(key) || !this.chunks.get(key)!.isActive) this.activateChunk(...)\<close>
  and the closing loop that deactivates every active chunk whose key is not among the
  keys found visible.\<close>

definition activateIfInactive ::
    "populate \<Rightarrow> ScatterConfig \<Rightarrow> real \<Rightarrow> real \<Rightarrow> ScatterSystem \<Rightarrow> ScatterSystem" where
  "activateIfInactive populateChunk cfg x z s =
     (case map_of (chunks s) (getChunkKey x z) of
        None \<Rightarrow> activateChunk populateChunk cfg x z s
      | Some chunk \<Rightarrow> if \<not> isActive chunk then activateChunk populateChunk cfg x z s else s)"

definition deactivateIfStale :: "chunk_key set \<Rightarrow> ScatterSystem \<Rightarrow> chunk_key \<Rightarrow> ScatterSystem" where
  "deactivateIfStale activeChunkKeys s key =
     (case map_of (chunks s) key of
        None \<Rightarrow> s
      | Some chunk \<Rightarrow>
          if key \<notin> activeChunkKeys \<and> isActive chunk then deactivateChunk key s else s)"

definition deactivateStale :: "chunk_key set \<Rightarrow> ScatterSystem \<Rightarrow> ScatterSystem" where
  "deactivateStale activeChunkKeys s =
     foldl (deactivateIfStale activeChunkKeys) s (map fst (chunks s))"




text \<open>What a \<open>populateChunk\<close> may do to the pool: \<open>acquired p ids p'\<close> says that \<open>p'\<close>
  is \<open>p\<close> after the successful acquisitions that answered \<open>ids\<close>, in this order (a failed
  acquisition leaves the pool as it is). A strategy is a pool client when the handles of
  its placements are exactly the handles it acquired.\<close>

fun acquired :: "InstancePool \<Rightarrow> int list \<Rightarrow> InstancePool \<Rightarrow> bool" where
  "acquired p [] p' \<longleftrightarrow> p' = p"
| "acquired p (i # ids) p' \<longleftrightarrow> fst (acquire p) = Some i \<and> acquired (snd (acquire p)) ids p'"

definition pool_client :: "populate \<Rightarrow> bool" where
  "pool_client P \<longleftrightarrow>
     (\<forall>chunk x z p. acquired p (map fst (fst (P chunk x z p))) (snd (P chunk x z p)))"

text \<open>All handles held by chunks, in map order.\<close>

definition chunkHandles :: "(chunk_key \<times> ChunkData) list \<Rightarrow> int list" where
  "chunkHandles cs = concat (map (\<lambda>e. instances (snd e)) cs)"


section \<open>Grid strategy (GridScatterSystem)\<close>

text \<open>\<open>gridSize\<close> counts the cells in \<open>x\<close> and \<open>z\<close>; \<open>skipPattern\<close> is the optional
  predicate on cell coordinates.\<close>

record GridScatterSystem =
  gridSize :: "nat \<times> nat"
  cellSize :: real
  gridCenter :: vec3
  randomOffset :: real
  skipPattern :: "(nat \<Rightarrow> nat \<Rightarrow> bool) option"

text \<open>How one pass through the body of a placement loop ends: by \<open>continue\<close> (the
  candidate is rejected), by \<open>break\<close> (the pool answered \<open>null\<close>) or with a placement.
  Each carries the generator as the pass left it.\<close>

datatype attempt =
    Rejected SeededRandom
  | Exhausted SeededRandom
  | Accepted SeededRandom InstancePool placement

text \<open>The body of the inner loop of \<open>populateChunk\<close> for the cell \<open>(gx, gz)\<close>.\<close>

definition gridCell ::
    "GridScatterSystem \<Rightarrow> ScatterConfig \<Rightarrow> box3 \<Rightarrow> nat \<Rightarrow> nat \<Rightarrow>
     SeededRandom \<Rightarrow> InstancePool \<Rightarrow> attempt" where
  "gridCell g cfg chunkBounds gx gz rng pool =
     (if (case skipPattern g of None \<Rightarrow> False | Some skip \<Rightarrow> skip gx gz) then Rejected rng
      else
        (let halfGridX = real (fst (gridSize g)) * cellSize g / 2;
             halfGridZ = real (snd (gridSize g)) * cellSize g / 2;
             gridStartX = fst (gridCenter g) - halfGridX;
             gridStartZ = snd (snd (gridCenter g)) - halfGridZ;
             cellCenterX = gridStartX + (real gx + 1 / 2) * cellSize g;
             cellCenterZ = gridStartZ + (real gz + 1 / 2) * cellSize g
         in case next_rand rng of (r1, rng1) \<Rightarrow>
            case next_rand rng1 of (r2, rng2) \<Rightarrow>
              (let offsetX = (r1 - 1 / 2) * cellSize g * randomOffset g;
                   offsetZ = (r2 - 1 / 2) * cellSize g * randomOffset g;
                   x = cellCenterX + offsetX;
                   z = cellCenterZ + offsetZ
               in if \<not> containsPoint chunkBounds (x, 0, z) then Rejected rng2
                  else
                    (case acquire pool of
                       (None, pool') \<Rightarrow> Exhausted rng2
                     | (Some instanceId, pool') \<Rightarrow>
                         (case range_rand (fst (rotationRange cfg)) (snd (rotationRange cfg)) rng2 of
                            (rot, rng3) \<Rightarrow>
                          case range_rand (fst (scaleRange cfg)) (snd (scaleRange cfg)) rng3 of
                            (baseScale, rng4) \<Rightarrow>
                              Accepted rng4 pool'
                                (instanceId,
                                 \<lparr>position = (x, 0 + heightOffset cfg, z),
                                  rotation = (0, rot, 0),
                                  scale = (baseScale, baseScale, baseScale)\<rparr>))))))"

text \<open>The inner loop over \<open>gz\<close>; \<open>break\<close> leaves this loop only.\<close>

fun gridColumn ::
    "GridScatterSystem \<Rightarrow> ScatterConfig \<Rightarrow> box3 \<Rightarrow> nat \<Rightarrow> nat list \<Rightarrow>
     SeededRandom \<times> InstancePool \<times> placement list \<Rightarrow>
     SeededRandom \<times> InstancePool \<times> placement list" where
  "gridColumn g cfg b gx [] st = st"
| "gridColumn g cfg b gx (gz # gzs) (rng, pool, placed) =
     (case gridCell g cfg b gx gz rng pool of
        Rejected rng' \<Rightarrow> gridColumn g cfg b gx gzs (rng', pool, placed)
      | Exhausted rng' \<Rightarrow> (rng', pool, placed)
      | Accepted rng' pool' pl \<Rightarrow> gridColumn g cfg b gx gzs (rng', pool', placed @ [pl]))"

definition populateChunk_Grid :: "GridScatterSystem \<Rightarrow> ScatterConfig \<Rightarrow> populate" where
  "populateChunk_Grid g cfg chunk centerX centerZ pool =
     (let halfSize = chunkSize cfg / 2;
          chunkBounds = \<lparr>minX = centerX - halfSize, minY = NegInf, minZ = centerZ - halfSize,
                         maxX = centerX + halfSize, maxY = PosInf, maxZ = centerZ + halfSize\<rparr>;
          rng = SeededRandom_new (chunkSeed centerX centerZ (randomSeed cfg))
      in case foldl (\<lambda>st gx. gridColumn g cfg chunkBounds gx [0..<snd (gridSize g)] st)
                (rng, pool, []) [0..<fst (gridSize g)] of
           (rng', pool', placed) \<Rightarrow> (placed, pool'))"

text \<open>The body of the nested scan of \<open>updateChunks\<close> at the grid line \<open>(x, z)\<close>, on the
  set of keys found visible so far and the system.\<close>

definition gridVisit ::
    "GridScatterSystem \<Rightarrow> ScatterConfig \<Rightarrow> vec3 \<Rightarrow> real \<Rightarrow> real \<Rightarrow>
     chunk_key set \<times> ScatterSystem \<Rightarrow> chunk_key set \<times> ScatterSystem" where
  "gridVisit g cfg cameraPos x z st =
     (case st of (activeChunkKeys, s) \<Rightarrow>
        (let size = chunkSize cfg;
             chunkX = x + size / 2;
             chunkZ = z + size / 2;
             dx = chunkX - fst cameraPos;
             dz = chunkZ - snd (snd cameraPos);
             camDist = sqrt (dx * dx + dz * dz)
         in if camDist \<le> visibilityRange cfg then
              (let chunkBounds = \<lparr>minX = chunkX - size / 2, minY = Num (- 100), minZ = chunkZ - size / 2,
                                  maxX = chunkX + size / 2, maxY = Num 100, maxZ = chunkZ + size / 2\<rparr>
               in if \<not> isChunkInFrustum chunkBounds s then (activeChunkKeys, s)
                  else (insert (getChunkKey chunkX chunkZ) activeChunkKeys,
                        activateIfInactive (populateChunk_Grid g cfg) cfg chunkX chunkZ s))
            else (activeChunkKeys, s)))"

text \<open>The two scans \<open>for (let z = minZ; z <= maxZ; z += chunkSize)\<close> and
  \<open>for (let x = minX; x <= maxX; x += chunkSize)\<close>. With a negative chunk size they do
  not end; not returning is the value \<open>None\<close>.\<close>

partial_function (option) gridScanZ ::
    "GridScatterSystem \<Rightarrow> ScatterConfig \<Rightarrow> vec3 \<Rightarrow> real \<Rightarrow> real \<Rightarrow> real \<Rightarrow>
     chunk_key set \<times> ScatterSystem \<Rightarrow> (chunk_key set \<times> ScatterSystem) option" where
  "gridScanZ g cfg cameraPos x z maxZ' st =
     (if z \<le> maxZ' then gridScanZ g cfg cameraPos x (z + chunkSize cfg) maxZ' (gridVisit g cfg cameraPos x z st)
      else Some st)"

partial_function (option) gridScanX ::
    "GridScatterSystem \<Rightarrow> ScatterConfig \<Rightarrow> vec3 \<Rightarrow> real \<Rightarrow> real \<Rightarrow> real \<Rightarrow> real \<Rightarrow>
     chunk_key set \<times> ScatterSystem \<Rightarrow> (chunk_key set \<times> ScatterSystem) option" where
  "gridScanX g cfg cameraPos x maxX' minZ' maxZ' st =
     (if x \<le> maxX' then
        Option.bind (gridScanZ g cfg cameraPos x minZ' maxZ' st)
          (gridScanX g cfg cameraPos (x + chunkSize cfg) maxX' minZ' maxZ')
      else Some st)"

text \<open>\<open>updateChunks\<close> of the grid strategy. With chunk size 0 the four scan bounds are
  NaN and neither scan runs a pass.\<close>

definition updateChunks_Grid ::
    "GridScatterSystem \<Rightarrow> ScatterConfig \<Rightarrow> ScatterSystem \<Rightarrow> ScatterSystem option" where
  "updateChunks_Grid g cfg s =
     (case currentCamera s of
        None \<Rightarrow> Some s
      | Some cameraPos \<Rightarrow>
          (if chunkSize cfg = 0 then Some (deactivateStale {} s)
           else
             (let size = chunkSize cfg;
                  halfGridX = real (fst (gridSize g)) * cellSize g / 2;
                  halfGridZ = real (snd (gridSize g)) * cellSize g / 2;
                  minX' = of_int \<lfloor>(fst (gridCenter g) - halfGridX) / size\<rfloor> * size;
                  maxX' = of_int \<lceil>(fst (gridCenter g) + halfGridX) / size\<rceil> * size;
                  minZ' = of_int \<lfloor>(snd (snd (gridCenter g)) - halfGridZ) / size\<rfloor> * size;
                  maxZ' = of_int \<lceil>(snd (snd (gridCenter g)) + halfGridZ) / size\<rceil> * size
              in case gridScanX g cfg cameraPos minX' maxX' minZ' maxZ' ({}, s) of
                   None \<Rightarrow> None
                 | Some (activeChunkKeys, s') \<Rightarrow> Some (deactivateStale activeChunkKeys s'))))"

text \<open>A camera as \<open>update\<close> sees it: its position, and the frustum test that
  \<open>updateFrustum\<close> derives from its matrices. \<open>init\<close> completes the initialization;
  before it \<open>update\<close> does nothing.\<close>

record camera =
  cameraPosition :: vec3
  cameraFrustum :: "box3 \<Rightarrow> bool"

definition init :: "ScatterSystem \<Rightarrow> ScatterSystem" where
  "init s = s\<lparr>isInitialized := True\<rparr>"

definition setFrustumCulling :: "bool \<Rightarrow> ScatterSystem \<Rightarrow> ScatterSystem" where
  "setFrustumCulling b s = s\<lparr>frustumCullingEnabled := b\<rparr>"

definition update_Grid ::
    "GridScatterSystem \<Rightarrow> ScatterConfig \<Rightarrow> camera \<Rightarrow> ScatterSystem \<Rightarrow> ScatterSystem option" where
  "update_Grid g cfg cam s =
     (if \<not> isInitialized s then Some s
      else updateChunks_Grid g cfg
             (s\<lparr>currentCamera := Some (cameraPosition cam), frustum := cameraFrustum cam\<rparr>))"

text \<open>The scenario of the specification: a 2 by 2 grid of cell size 10 centered at the
  origin, no jitter, no skip predicate; the configuration with the documented defaults,
  a visibility range of 100 and a global seed left open; a camera at the origin that sees
  every box.\<close>

definition grid_example :: GridScatterSystem where
  "grid_example =
     \<lparr>gridSize = (2, 2), cellSize = 10, gridCenter = (0, 0, 0), randomOffset = 0,
      skipPattern = None\<rparr>"

definition cfg_example :: "real \<Rightarrow> ScatterConfig" where
  "cfg_example globalSeed =
     \<lparr>density = 1, maxInstancesCfg = 10000, visibilityRange = 100, chunkSize = 64,
      scaleRange = (4 / 5, 6 / 5), rotationRange = (0, 2 * pi), heightOffset = 0,
      alignToNormal = True, randomSeed = globalSeed,
      noiseDistribution =
        \<lparr>enabled = False, noiseScale = 1 / 10, octaves = 3, persistence = 1 / 2,
         lacunarity = 2, threshold = 3 / 10, power = 1, offset = 0\<rparr>\<rparr>"

definition camera_example :: camera where
  "camera_example = \<lparr>cameraPosition = (0, 0, 0), cameraFrustum = (\<lambda>b. True)\<rparr>"

text \<open>The positions of all instances held by chunks, in map order.\<close>

definition placedPositions :: "ScatterSystem \<Rightarrow> vec3 list" where
  "placedPositions s =
     map (\<lambda>i. position (instanceTransforms (meshConverter s) i)) (chunkHandles (chunks s))"

section \<open>Radial strategy (RadialScatterSystem)\<close>

text \<open>\<open>Math.pow\<close> on finite arguments (results too large for a double aside).\<close>

definition Math_pow :: "real \<Rightarrow> real \<Rightarrow> jsnum" where
  "Math_pow b e =
     (if e = 0 then Num 1
      else if b > 0 then Num (b powr e)
      else if b = 0 then (if e > 0 then Num 0 else PosInf)
      else if e = of_int \<lfloor>e\<rfloor> then Num (b powi \<lfloor>e\<rfloor>)
      else NaN)"

fun js_pow :: "jsnum \<Rightarrow> real \<Rightarrow> jsnum" where
  "js_pow (Num b) e = Math_pow b e"
| "js_pow NaN e = (if e = 0 then Num 1 else NaN)"
| "js_pow PosInf e = (if e = 0 then Num 1 else if e > 0 then PosInf else Num 0)"
| "js_pow NegInf e =
     (if e = 0 then Num 1
      else if e > 0 then (if e = of_int \<lfloor>e\<rfloor> \<and> odd \<lfloor>e\<rfloor> then NegInf else PosInf)
      else Num 0)"

fun js_add :: "jsnum \<Rightarrow> real \<Rightarrow> jsnum" where
  "js_add (Num a) b = Num (a + b)"
| "js_add PosInf b = PosInf"
| "js_add NegInf b = NegInf"
| "js_add NaN b = NaN"

text \<open>\<open>Math.atan2(y, x)\<close> (the sign of a zero aside).\<close>

definition Math_atan2 :: "real \<Rightarrow> real \<Rightarrow> real" where
  "Math_atan2 y x =
     (if x > 0 then arctan (y / x)
      else if x < 0 then (if y \<ge> 0 then arctan (y / x) + pi else arctan (y / x) - pi)
      else if y > 0 then pi / 2
      else if y < 0 then - pi / 2
      else 0)"

definition getNoiseValue :: "ScatterConfig \<Rightarrow> real \<Rightarrow> real \<Rightarrow> PerlinNoise \<Rightarrow> jsnum" where
  "getNoiseValue cfg x z noise =
     (let c = noiseDistribution cfg;
          noiseValue = fbm2D noise x z (octaves c) (persistence c) (lacunarity c) (noiseScale c)
      in js_pow (js_add noiseValue (offset c)) (power c))"

text \<open>\<open>shouldPlaceInstance(x, z, chunk.noiseGenerator!)\<close>. A chunk built by
  \<open>activateChunk\<close> always carries its noise field; without one no position is accepted.\<close>

definition shouldPlaceInstance ::
    "ScatterConfig \<Rightarrow> real \<Rightarrow> real \<Rightarrow> PerlinNoise option \<Rightarrow> bool" where
  "shouldPlaceInstance cfg x z noise =
     (if \<not> enabled (noiseDistribution cfg) then True
      else (case noise of
              None \<Rightarrow> False
            | Some n \<Rightarrow> js_ge (getNoiseValue cfg x z n) (threshold (noiseDistribution cfg))))"

record RadialScatterSystem =
  radialCenter :: vec3
  innerRadius :: real
  outerRadius :: real
  angleStart :: real
  angleEnd :: real
  heightRange :: "real \<times> real"
  radialDensityFalloff :: real

text \<open>One pass through the body of the \<open>while\<close> loop of \<open>populateChunk\<close>, after
  \<open>attempts++\<close>. A radius that is not a finite number gives a position that no box
  contains.\<close>

definition radialAttempt ::
    "RadialScatterSystem \<Rightarrow> ScatterConfig \<Rightarrow> ChunkData \<Rightarrow> box3 \<Rightarrow>
     SeededRandom \<Rightarrow> InstancePool \<Rightarrow> attempt" where
  "radialAttempt r cfg chunk chunkBounds rng pool =
     (case range_rand (angleStart r) (angleEnd r) rng of (angle, rng1) \<Rightarrow>
      case (if radialDensityFalloff r > 0 then
              (case next_rand rng1 of (v, rng2) \<Rightarrow>
                 (case Math_pow v (1 / (1 + radialDensityFalloff r)) of
                    Num t \<Rightarrow> (Some (innerRadius r + t * (outerRadius r - innerRadius r)), rng2)
                  | _ \<Rightarrow> (None, rng2)))
            else
              (case range_rand (innerRadius r) (outerRadius r) rng1 of
                 (radius, rng2) \<Rightarrow> (Some radius, rng2)))
      of (radius, rng2) \<Rightarrow>
      case range_rand (fst (heightRange r)) (snd (heightRange r)) rng2 of (y, rng3) \<Rightarrow>
        (case radius of
           None \<Rightarrow> Rejected rng3
         | Some radius' \<Rightarrow>
             (let cx = fst (radialCenter r);
                  cz = snd (snd (radialCenter r));
                  x = cx + radius' * cos angle;
                  z = cz + radius' * sin angle
              in if \<not> containsPoint chunkBounds (x, y, z) then Rejected rng3
                 else if \<not> shouldPlaceInstance cfg x z (noiseGenerator chunk) then Rejected rng3
                 else
                   (case acquire pool of
                      (None, pool') \<Rightarrow> Exhausted rng3
                    | (Some instanceId, pool') \<Rightarrow>
                        (let len = sqrt ((x - cx) * (x - cx) + (z - cz) * (z - cz));
                             d = (if len = 0 then 1 else len);
                             dirX = (x - cx) / d;
                             dirZ = (z - cz) / d
                         in case range_rand (fst (rotationRange cfg)) (snd (rotationRange cfg)) rng3 of
                              (rot, rng4) \<Rightarrow>
                            case range_rand (fst (scaleRange cfg)) (snd (scaleRange cfg)) rng4 of
                              (baseScale, rng5) \<Rightarrow>
                                Accepted rng5 pool'
                                  (instanceId,
                                   \<lparr>position = (x, y + heightOffset cfg, z),
                                    rotation = (0, Math_atan2 dirX dirZ + rot, 0),
                                    scale = (baseScale, baseScale, baseScale)\<rparr>))))))"

function radialLoop ::
    "RadialScatterSystem \<Rightarrow> ScatterConfig \<Rightarrow> ChunkData \<Rightarrow> box3 \<Rightarrow> int \<Rightarrow> int \<Rightarrow>
     int \<Rightarrow> int \<Rightarrow> SeededRandom \<Rightarrow> InstancePool \<Rightarrow> placement list \<Rightarrow>
     placement list \<times> InstancePool" where
  "radialLoop r cfg chunk b targetCount maxAttempts placed attempts rng pool acc =
     (if placed < targetCount \<and> attempts < maxAttempts then
        (case radialAttempt r cfg chunk b rng pool of
           Rejected rng' \<Rightarrow>
             radialLoop r cfg chunk b targetCount maxAttempts placed (attempts + 1) rng' pool acc
         | Exhausted rng' \<Rightarrow> (acc, pool)
         | Accepted rng' pool' pl \<Rightarrow>
             radialLoop r cfg chunk b targetCount maxAttempts (placed + 1) (attempts + 1)
               rng' pool' (acc @ [pl]))
      else (acc, pool))"
  by pat_completeness auto
termination
  by (relation "measure (\<lambda>(r, cfg, chunk, b, targetCount, maxAttempts, placed, attempts, rest).
                   nat (maxAttempts - attempts))") auto

declare radialLoop.simps [simp del]

definition populateChunk_Radial :: "RadialScatterSystem \<Rightarrow> ScatterConfig \<Rightarrow> populate" where
  "populateChunk_Radial r cfg chunk centerX centerZ pool =
     (let halfSize = chunkSize cfg / 2;
          chunkBounds = \<lparr>minX = centerX - halfSize, minY = Num (fst (heightRange r)),
                         minZ = centerZ - halfSize,
                         maxX = centerX + halfSize, maxY = Num (snd (heightRange r)),
                         maxZ = centerZ + halfSize\<rparr>;
          chunkArea = chunkSize cfg * chunkSize cfg;
          targetCount = \<lfloor>chunkArea * density cfg\<rfloor>;
          rng = SeededRandom_new (chunkSeed centerX centerZ (randomSeed cfg));
          maxAttempts = targetCount * 5
      in radialLoop r cfg chunk chunkBounds targetCount maxAttempts 0 0 rng pool [])"

text \<open>An example: every candidate of this ring lies at \<open>(10, 0, 0)\<close>; a configuration
  with room for two instances; a pool of capacity 2 with both handles in use; a chunk and
  a box around the candidate.\<close>

definition radial_example :: RadialScatterSystem where
  "radial_example =
     \<lparr>radialCenter = (0, 0, 0), innerRadius = 10, outerRadius = 10, angleStart = 0, angleEnd = 0,
      heightRange = (0, 0), radialDensityFalloff = 0\<rparr>"

definition cfg_small :: ScatterConfig where
  "cfg_small = (cfg_example 42)\<lparr>maxInstancesCfg := 2\<rparr>"

definition full_pool_example :: InstancePool where
  "full_pool_example = \<lparr>activeInstances = {1, 0}, freeIds = [], nextId = 2, maxInstances = 2\<rparr>"

definition chunk_example :: ChunkData where
  "chunk_example =
     \<lparr>instances = [], isActive = True, noiseGenerator = None,
      bounds = \<lparr>minX = 0, minY = Num (- 1000), minZ = 0, maxX = 64, maxY = Num 1000, maxZ = 64\<rparr>\<rparr>"

definition box_example :: box3 where
  "box_example = \<lparr>minX = 0, minY = Num 0, minZ = 0, maxX = 64, maxY = Num 0, maxZ = 64\<rparr>"

section \<open>Curve strategy (CurveScatterSystem)\<close>

datatype error = TypeError

type_synonym quat = "real \<times> real \<times> real \<times> real"

text \<open>A handle is an \<open>Object3D\<close>, of which the code reads the quaternion and the scale.\<close>

record Handle =
  handleQuaternion :: quat
  handleScale :: vec3

text \<open>The rotation computations of the rendering library are parameters: the Euler
  angles of \<open>lookAt(origin, tangent, up)\<close> and of the \<open>slerp\<close> of two quaternions.\<close>

record ThreeMath =
  lookAtEuler :: "vec3 \<Rightarrow> vec3"
  slerpEuler :: "quat \<Rightarrow> quat \<Rightarrow> real \<Rightarrow> vec3"

record CurveScatterSystem =
  curvePoints :: "vec3 list"
  curveTangents :: "vec3 list"
  handles :: "Handle list option"
  offsetRange :: "(real \<times> real) option"
  curveWidth :: "real option"

text \<open>\<open>Vector3.normalize\<close> divides by the length, or by 1 when the length is 0.\<close>

definition normalize :: "vec3 \<Rightarrow> vec3" where
  "normalize v =
     (case v of (x, y, z) \<Rightarrow>
        (let len = sqrt (x * x + y * y + z * z);
             d = (if len = 0 then 1 else len)
         in (x / d, y / d, z / d)))"

definition subVectors :: "vec3 \<Rightarrow> vec3 \<Rightarrow> vec3" where
  "subVectors a b =
     (case a of (ax, ay, az) \<Rightarrow> case b of (bx, by, bz) \<Rightarrow> (ax - bx, ay - by, az - bz))"

text \<open>An array read \<open>xs[i]\<close>: \<open>undefined\<close> outside the array.\<close>

definition js_nth :: "'a list \<Rightarrow> int \<Rightarrow> 'a option" where
  "js_nth xs i = (if 0 \<le> i \<and> i < int (length xs) then Some (xs ! nat i) else None)"

text \<open>The tangent of the point at \<open>index\<close> in \<open>generateCurvePoints\<close>: the last point
  looks back at its predecessor, every other point ahead at its successor. Reading a
  coordinate of \<open>undefined\<close> raises a TypeError.\<close>

definition tangentAt :: "vec3 list \<Rightarrow> nat \<Rightarrow> error + vec3" where
  "tangentAt pts index =
     (let pos = pts ! index in
      if int index = int (length pts) - 1 then
        (case js_nth pts (int index - 1) of
           None \<Rightarrow> Inl TypeError
         | Some prevPos \<Rightarrow> Inr (normalize (subVectors pos prevPos)))
      else
        (case js_nth pts (int index + 1) of
           None \<Rightarrow> Inl TypeError
         | Some nextPos \<Rightarrow> Inr (normalize (subVectors nextPos pos))))"

fun collect :: "(error + 'a) list \<Rightarrow> error + 'a list" where
  "collect [] = Inr []"
| "collect (Inl e # rs) = Inl e"
| "collect (Inr v # rs) = (case collect rs of Inl e \<Rightarrow> Inl e | Inr vs \<Rightarrow> Inr (v # vs))"

text \<open>\<open>generateCurvePoints\<close> on the points that the curve's \<open>getPoints\<close> answered: the
  points are stored first, then the tangents are computed; an error leaves the old
  tangents in place.\<close>

definition generateCurvePoints :: "vec3 list \<Rightarrow> CurveScatterSystem \<Rightarrow> error \<times> CurveScatterSystem + CurveScatterSystem" where
  "generateCurvePoints pts c =
     (let c1 = c\<lparr>curvePoints := pts\<rparr> in
      case collect (map (tangentAt pts) [0..<length pts]) of
        Inl e \<Rightarrow> Inl (e, c1)
      | Inr ts \<Rightarrow> Inr (c1\<lparr>curveTangents := ts\<rparr>))"

text \<open>The curve parameter \<open>t = i / (this.curvePoints.length - 1)\<close>.\<close>

definition curveParam :: "nat \<Rightarrow> nat \<Rightarrow> jsnum" where
  "curveParam i n = js_div (real i) (real_of_int (int n - 1))"

text \<open>The two handles around parameter \<open>t\<close> and the blend factor between them:
  \<open>handleIndex = floor(t * (len - 1))\<close>, \<open>nextHandleIndex = min(handleIndex + 1, len - 1)\<close>,
  \<open>handleT = (t * (len - 1)) % 1\<close>. A NaN index reads \<open>undefined\<close>, and reading a
  property of it raises a TypeError.\<close>

definition handlesAt :: "Handle list \<Rightarrow> jsnum \<Rightarrow> error + Handle \<times> Handle \<times> real" where
  "handlesAt hs t =
     (case t of
        Num t' \<Rightarrow>
          (let len = int (length hs);
               v = t' * real_of_int (len - 1);
               handleIndex = \<lfloor>v\<rfloor>;
               nextHandleIndex = min (handleIndex + 1) (len - 1);
               handleT = v - of_int (js_trunc v)
           in case (js_nth hs handleIndex, js_nth hs nextHandleIndex) of
                (Some h, Some h') \<Rightarrow> Inr (h, h', handleT)
              | _ \<Rightarrow> Inl TypeError)
      | _ \<Rightarrow> Inl TypeError)"

definition perpendicularOf :: "vec3 \<Rightarrow> vec3" where
  "perpendicularOf tangent = (case tangent of (tx, ty, tz) \<Rightarrow> normalize (- tz, 0, tx))"

definition addScaled :: "vec3 \<Rightarrow> vec3 \<Rightarrow> real \<Rightarrow> vec3" where
  "addScaled p v k =
     (case p of (px, py, pz) \<Rightarrow> case v of (vx, vy, vz) \<Rightarrow> (px + vx * k, py + vy * k, pz + vz * k))"

text \<open>The body of the inner loop of \<open>populateChunk\<close> after a successful \<open>acquire\<close>, for
  the \<open>w\<close>-th of \<open>distributionsPerPoint\<close> instances at a point.\<close>

definition curveInstance ::
    "ThreeMath \<Rightarrow> CurveScatterSystem \<Rightarrow> ScatterConfig \<Rightarrow> vec3 \<Rightarrow> vec3 option \<Rightarrow> jsnum \<Rightarrow>
     int \<Rightarrow> int \<Rightarrow> SeededRandom \<Rightarrow> error + SeededRandom \<times> transform" where
  "curveInstance m c cfg point tangent t distributionsPerPoint w rng =
     (let widthOn = (case curveWidth c of None \<Rightarrow> False | Some wd \<Rightarrow> wd \<noteq> 0) \<and> distributionsPerPoint > 1;
          manyHandles = (case handles c of None \<Rightarrow> False | Some hs \<Rightarrow> length hs > 1)
      in
      case (if widthOn then
              (case tangent of
                 None \<Rightarrow> Inl TypeError
               | Some tg \<Rightarrow>
                   (let widthT = real_of_int w / real_of_int (distributionsPerPoint - 1);
                        widthOffset = (widthT - 1 / 2) * the (curveWidth c)
                    in Inr (addScaled point (perpendicularOf tg) widthOffset)))
            else Inr point) of
        Inl e \<Rightarrow> Inl e
      | Inr p1 \<Rightarrow>
      case (case offsetRange c of
              None \<Rightarrow> Inr (p1, rng)
            | Some (lo, hi) \<Rightarrow>
                (case tangent of
                   None \<Rightarrow> Inl TypeError
                 | Some tg \<Rightarrow>
                     (case range_rand lo hi rng of (off, rng1) \<Rightarrow>
                        Inr (addScaled p1 (perpendicularOf tg) off, rng1)))) of
        Inl e \<Rightarrow> Inl e
      | Inr (p2, rng1) \<Rightarrow>
      case (if alignToNormal cfg then
              (case tangent of None \<Rightarrow> Inl TypeError | Some tg \<Rightarrow> Inr (lookAtEuler m tg))
            else if manyHandles then
              (case handlesAt (the (handles c)) t of
                 Inl e \<Rightarrow> Inl e
               | Inr (h, h', handleT) \<Rightarrow>
                   Inr (slerpEuler m (handleQuaternion h) (handleQuaternion h') handleT))
            else Inr (0, 0, 0)) of
        Inl e \<Rightarrow> Inl e
      | Inr (rx, ry, rz) \<Rightarrow>
      case range_rand (fst (rotationRange cfg)) (snd (rotationRange cfg)) rng1 of (rot, rng2) \<Rightarrow>
      case range_rand (fst (scaleRange cfg)) (snd (scaleRange cfg)) rng2 of (baseScale0, rng3) \<Rightarrow>
      case (if manyHandles then
              (case handlesAt (the (handles c)) t of
                 Inl e \<Rightarrow> Inl e
               | Inr (h, h', handleT) \<Rightarrow>
                   Inr (baseScale0 *
                        (fst (handleScale h) + (fst (handleScale h') - fst (handleScale h)) * handleT)))
            else Inr baseScale0) of
        Inl e \<Rightarrow> Inl e
      | Inr baseScale \<Rightarrow>
          (case p2 of (px, py, pz) \<Rightarrow>
             Inr (rng3,
                  \<lparr>position = (px, py + heightOffset cfg, pz),
                   rotation = (rx, ry + rot, rz),
                   scale = (baseScale, baseScale, baseScale)\<rparr>)))"

text \<open>The inner loop over \<open>w\<close>; an exception leaves it with the pool as it is then.\<close>

fun curveBatch ::
    "ThreeMath \<Rightarrow> CurveScatterSystem \<Rightarrow> ScatterConfig \<Rightarrow> vec3 \<Rightarrow> vec3 option \<Rightarrow> jsnum \<Rightarrow>
     int \<Rightarrow> int list \<Rightarrow> SeededRandom \<times> InstancePool \<times> placement list \<Rightarrow>
     error \<times> InstancePool + SeededRandom \<times> InstancePool \<times> placement list" where
  "curveBatch m c cfg point tangent t dpp [] st = Inr st"
| "curveBatch m c cfg point tangent t dpp (w # ws) (rng, pool, placed) =
     (case acquire pool of
        (None, pool') \<Rightarrow> Inr (rng, pool, placed)
      | (Some instanceId, pool') \<Rightarrow>
          (case curveInstance m c cfg point tangent t dpp w rng of
             Inl e \<Rightarrow> Inl (e, pool')
           | Inr (rng', tr) \<Rightarrow>
               curveBatch m c cfg point tangent t dpp ws (rng', pool', placed @ [(instanceId, tr)])))"

text \<open>The outer loop over the indices of the points.\<close>

fun curveLoop ::
    "ThreeMath \<Rightarrow> CurveScatterSystem \<Rightarrow> ScatterConfig \<Rightarrow> box3 \<Rightarrow> nat list \<Rightarrow>
     SeededRandom \<times> InstancePool \<times> placement list \<Rightarrow>
     error \<times> InstancePool + SeededRandom \<times> InstancePool \<times> placement list" where
  "curveLoop m c cfg b [] st = Inr st"
| "curveLoop m c cfg b (i # is) st =
     (let point = curvePoints c ! i in
      if \<not> containsPoint b point then curveLoop m c cfg b is st
      else
        (let tangent = js_nth (curveTangents c) (int i);
             t = curveParam i (length (curvePoints c));
             distributionsPerPoint =
               (case curveWidth c of
                  None \<Rightarrow> 1
                | Some wd \<Rightarrow> if wd \<noteq> 0 then max 1 \<lceil>wd * density cfg\<rceil> else 1)
         in case curveBatch m c cfg point tangent t distributionsPerPoint
                   [0..distributionsPerPoint - 1] st of
              Inl e \<Rightarrow> Inl e
            | Inr st' \<Rightarrow> curveLoop m c cfg b is st'))"

definition populateChunk_Curve ::
    "ThreeMath \<Rightarrow> CurveScatterSystem \<Rightarrow> ScatterConfig \<Rightarrow> ChunkData \<Rightarrow> real \<Rightarrow> real \<Rightarrow>
     InstancePool \<Rightarrow> error \<times> InstancePool + placement list \<times> InstancePool" where
  "populateChunk_Curve m c cfg chunk centerX centerZ pool =
     (let halfSize = chunkSize cfg / 2;
          chunkBounds = \<lparr>minX = centerX - halfSize, minY = NegInf, minZ = centerZ - halfSize,
                         maxX = centerX + halfSize, maxY = PosInf, maxZ = centerZ + halfSize\<rparr>;
          rng = SeededRandom_new (chunkSeed centerX centerZ (randomSeed cfg))
      in case curveLoop m c cfg chunkBounds [0..<length (curvePoints c)] (rng, pool, []) of
           Inl e \<Rightarrow> Inl e
         | Inr (rng', pool', placed) \<Rightarrow> Inr (placed, pool'))"

text \<open>An example: a system whose point list is a single point, with the tangents of an
  earlier curve still in place, and two handles.\<close>

definition curve_example :: CurveScatterSystem where
  "curve_example =
     \<lparr>curvePoints = [(1, 0, 1)],
      curveTangents = [(1, 0, 0), (1, 0, 0)],
      handles = Some [\<lparr>handleQuaternion = (0, 0, 0, 1), handleScale = (1, 1, 1)\<rparr>,
                      \<lparr>handleQuaternion = (0, 0, 0, 1), handleScale = (2, 2, 2)\<rparr>],
      offsetRange = None,
      curveWidth = None\<rparr>"


section \<open>Properties\<close>

lemma pool_inv_new: "0 \<le> m \<Longrightarrow> pool_inv (InstancePool_new m)"
  by (simp add: pool_inv_def InstancePool_new_def)

lemma pool_inv_acquire: "pool_inv p \<Longrightarrow> pool_inv (snd (acquire p))"
proof (cases "freeIds p = []")
  case True
  assume "pool_inv p"
  with True show ?thesis
    by (auto simp: pool_inv_def acquire_def Let_def)
next
  case False
  assume inv: "pool_inv p"
  from False have l: "last (freeIds p) \<in> set (freeIds p)"
    by simp
  have b: "set (butlast (freeIds p)) \<subseteq> set (freeIds p)"
    by (auto dest: in_set_butlastD)
  have d: "distinct (butlast (freeIds p))"
    using inv by (simp add: pool_inv_def distinct_butlast)
  have n: "last (freeIds p) \<notin> set (butlast (freeIds p))"
    using inv False
    by (metis append_butlast_last_id distinct_append disjoint_iff list.set_intros(1)
        pool_inv_def)
  have r: "0 \<le> last (freeIds p) \<and> last (freeIds p) < nextId p"
    using inv l by (auto simp: pool_inv_def)
  have a: "activeInstances p \<inter> set (butlast (freeIds p)) = {}"
    using inv b by (auto simp: pool_inv_def)
  from inv False b d n r a show ?thesis
    by (auto simp: pool_inv_def acquire_def Let_def)
qed

lemma pool_inv_release: "pool_inv p \<Longrightarrow> pool_inv (release i p)"
  by (auto simp: pool_inv_def release_def)

lemma pool_inv_step: "pool_inv p \<Longrightarrow> pool_inv (pool_step p c)"
  by (cases c) (simp_all add: pool_inv_acquire pool_inv_release)

lemma pool_inv_run: "pool_inv p \<Longrightarrow> pool_inv (pool_run p cs)"
  unfolding pool_run_def
  by (induction cs arbitrary: p) (simp_all add: pool_inv_step)

lemma maxInstances_acquire [simp]: "maxInstances (snd (acquire p)) = maxInstances p"
  by (simp add: acquire_def Let_def)

lemma maxInstances_release [simp]: "maxInstances (release i p) = maxInstances p"
  by (simp add: release_def)

lemma maxInstances_run [simp]: "maxInstances (pool_run p cs) = maxInstances p"
  unfolding pool_run_def
proof (induction cs arbitrary: p)
  case Nil
  show ?case by simp
next
  case (Cons c cs)
  show ?case by (cases c) (simp_all add: Cons.IH)
qed

lemma pool_inv_card:
  assumes "pool_inv p"
  shows "int (card (activeInstances p)) \<le> maxInstances p"
proof -
  from assms have sub: "activeInstances p \<subseteq> {0..<nextId p}"
    and le: "nextId p \<le> maxInstances p" and nn: "0 \<le> nextId p"
    by (simp_all add: pool_inv_def)
  have "card (activeInstances p) \<le> card {0..<nextId p}"
    using sub by (intro card_mono) simp_all
  also have "int (card {0..<nextId p}) = nextId p"
    using nn by simp
  finally show ?thesis using le by linarith
qed

lemma acquire_None_iff:
  "fst (acquire p) = None \<longleftrightarrow> freeIds p = [] \<and> maxInstances p \<le> nextId p"
  by (auto simp: acquire_def Let_def)

text \<open>
  Claim C1. For every sequence of \<open>acquire()\<close> and \<open>release(id)\<close> calls on a pool
  constructed with a (non-negative) capacity \<open>m\<close>, the number of active instances never
  exceeds \<open>m\<close>, and the next \<open>acquire()\<close> answers \<open>null\<close> exactly when the free
  list is empty and the counter has reached \<open>m\<close>. Every prefix of a call sequence is a call
  sequence, so the bound holds at every point in time.
\<close>

theorem pool_capacity_bound:
  assumes "0 \<le> m"
  shows "int (getActiveCount (pool_run (InstancePool_new m) cs)) \<le> m \<and>
         (fst (acquire (pool_run (InstancePool_new m) cs)) = None \<longleftrightarrow>
            freeIds (pool_run (InstancePool_new m) cs) = [] \<and>
            m \<le> nextId (pool_run (InstancePool_new m) cs))"
proof -
  let ?p = "pool_run (InstancePool_new m) cs"
  have inv: "pool_inv ?p"
    using assms by (intro pool_inv_run pool_inv_new)
  have mx: "maxInstances ?p = m"
    by (simp add: InstancePool_new_def)
  from pool_inv_card [OF inv] mx have "int (getActiveCount ?p) \<le> m"
    by (simp add: getActiveCount_def)
  moreover have "fst (acquire ?p) = None \<longleftrightarrow> freeIds ?p = [] \<and> m \<le> nextId ?p"
    using acquire_None_iff [of ?p] mx by simp
  ultimately show ?thesis by simp
qed

theorem pool_capacity_bound_witness:
  "(0::int) \<le> 2 \<and>
   int (getActiveCount (pool_run (InstancePool_new 2)
          [Acquire, Acquire, Acquire, Release 0, Acquire, Acquire])) \<le> 2 \<and>
   fst (acquire (pool_run (InstancePool_new 2)
          [Acquire, Acquire, Acquire, Release 0, Acquire, Acquire])) = None"
proof -
  have h: "(0::int) \<le> 2" by simp
  have e: "freeIds (pool_run (InstancePool_new 2)
             [Acquire, Acquire, Acquire, Release 0, Acquire, Acquire]) = [] \<and>
           (2::int) \<le> nextId (pool_run (InstancePool_new 2)
             [Acquire, Acquire, Acquire, Release 0, Acquire, Acquire])"
    by (simp add: pool_run_def InstancePool_new_def acquire_def release_def Let_def)
  show ?thesis
    using h e pool_capacity_bound [OF h, of "[Acquire, Acquire, Acquire, Release 0, Acquire, Acquire]"]
    by simp
qed

subsection \<open>Chunk seed\<close>





subsection \<open>Level of detail\<close>

lemma getLOD_origin:
  "0 \<le> d \<Longrightarrow> levels l \<noteq> [] \<Longrightarrow>
   getLODDensityMultiplier (Some (0, 0, 0)) (Some l) d 0 =
   lodDensityLoop (levels l) (case blendDistance l of Some b \<Rightarrow> b | None \<Rightarrow> 0) d
     (length (levels l))"
  by (simp add: getLODDensityMultiplier_def)

text \<open>
  Claim C4 says that with levels \<open>{0: 1.0, 100: 0.5}\<close> and blend distance 20 the density
  multiplier at camera distance 110 is 0.75, and that the multiplier is continuous across
  a blend window. The code blends from a level into the next one over the window that
  starts at the level's own distance: for the camera at the origin it answers 0.5 at
  distance 110, 0.75 at distance 10, 0.525 at distance 19 and 1 at distance 20, so the
  multiplier jumps at the end of the window.
\<close>

theorem lod_blend_window_misplaced:
  "getLODDensityMultiplier (Some (0, 0, 0)) (Some lod_example) 110 0 = 1 / 2 \<and>
   getLODDensityMultiplier (Some (0, 0, 0)) (Some lod_example) 10 0 = 3 / 4 \<and>
   getLODDensityMultiplier (Some (0, 0, 0)) (Some lod_example) 19 0 = 21 / 40 \<and>
   getLODDensityMultiplier (Some (0, 0, 0)) (Some lod_example) 20 0 = 1"
  by (simp add: getLOD_origin lod_example_def numeral_2_eq_2 Let_def)

subsection \<open>Density map\<close>

text \<open>
  Claim C10. \<open>sampleDensityMap\<close> answers 1.0 whenever the pixel data, the texture or the
  density-map configuration is missing, and whenever the computed coordinate \<open>u\<close> or
  \<open>v\<close> compares below 0 or above 1.
\<close>

theorem sampleDensityMap_full_density:
  "(d = None \<or> t = None \<or> c = None \<longrightarrow> sampleDensityMap d t c worldX worldZ = Num 1) \<and>
   (c = Some cfg \<and> densityUV cfg worldX worldZ = (u, v) \<and>
      (js_lt u 0 \<or> js_gt u 1 \<or> js_lt v 0 \<or> js_gt v 1)
    \<longrightarrow> sampleDensityMap d t c worldX worldZ = Num 1)"
  by (auto simp: sampleDensityMap_def split: option.splits prod.splits)

theorem sampleDensityMap_full_density_witness:
  "sampleDensityMap None (Some (1, 1)) (Some densityMap_example) 5 5 = Num 1 \<and>
   densityUV densityMap_example 20 5 = (Num 2, Num (1 / 2)) \<and>
   sampleDensityMap (Some [51, 0, 0, 255]) (Some (1, 1)) (Some densityMap_example) 20 5 = Num 1 \<and>
   sampleDensityMap (Some [51, 0, 0, 255]) (Some (1, 1)) (Some densityMap_example) 5 5 = Num (1 / 5)"
proof -
  have uv: "densityUV densityMap_example 20 5 = (Num 2, Num (1 / 2))"
    by (simp add: densityUV_def densityMap_example_def js_div_def)
  have inside: "sampleDensityMap (Some [51, 0, 0, 255]) (Some (1, 1)) (Some densityMap_example) 5 5
                  = Num (1 / 5)"
    by (simp add: sampleDensityMap_def densityUV_def densityMap_example_def js_div_def)
  from sampleDensityMap_full_density
         [of None "Some (1, 1)" "Some densityMap_example" 5 5 densityMap_example "Num 2" "Num (1 / 2)"]
  have a: "sampleDensityMap None (Some (1, 1)) (Some densityMap_example) 5 5 = Num 1"
    by simp
  from sampleDensityMap_full_density
         [of "Some [51, 0, 0, 255]" "Some (1, 1)" "Some densityMap_example" 20 5
             densityMap_example "Num 2" "Num (1 / 2)"] uv
  have b: "sampleDensityMap (Some [51, 0, 0, 255]) (Some (1, 1)) (Some densityMap_example) 20 5
             = Num 1"
    by simp
  from a b uv inside show ?thesis by simp
qed


subsection \<open>Noise field\<close>

lemma lcg_range: "0 \<le> lcg s \<and> lcg s < 233280"
  by (simp add: lcg_def)

lemma next_rand_nonneg:
  assumes "0 \<le> seed r"
  shows "next_rand r = (real_of_int (lcg (seed r)) / 233280, r\<lparr>seed := lcg (seed r)\<rparr>)"
proof -
  have "0 \<le> seed r * 9301 + 49297" using assms by simp
  then have "js_rem (seed r * 9301 + 49297) 233280 = lcg (seed r)"
    by (simp add: js_rem_def lcg_def sgn_if)
  then show ?thesis by (simp add: next_rand_def Let_def)
qed

lemma floor_draw:
  "\<lfloor>real_of_int s / 233280 * (real i + 1)\<rfloor> = s * (int i + 1) div 233280"
proof -
  have "real_of_int s / 233280 * (real i + 1) = real_of_int (s * (int i + 1)) / real_of_int 233280"
    by simp
  then show ?thesis
    by (simp only: floor_divide_of_int_eq)
qed

lemma floor_draw':
  "\<lfloor>real_of_int s * (real i + 1) / 233280\<rfloor> = s * (int i + 1) div 233280"
  using floor_draw [of s i] by simp

lemma drawIndex_le:
  assumes "0 \<le> s" "s < 233280"
  shows "0 \<le> s * (int i + 1) div 233280 \<and> s * (int i + 1) div 233280 \<le> int i"
proof -
  have "s * (int i + 1) < 233280 * (int i + 1)"
    using assms by (intro mult_strict_right_mono) auto
  then have "s * (int i + 1) div 233280 < int i + 1"
    by (simp add: div_less_iff_less_mult mult.commute)
  moreover have "0 \<le> s * (int i + 1) div 233280"
    using assms by (simp add: pos_imp_zdiv_nonneg_iff)
  ultimately show ?thesis by simp
qed

lemma shuffle_Suc_nonneg:
  assumes "0 \<le> seed rng"
  shows "shuffle (Suc k) p rng =
         shuffle k (swapEntries p (Suc k) (drawIndex (lcg (seed rng)) (Suc k)))
           (rng\<lparr>seed := lcg (seed rng)\<rparr>)"
  using assms lcg_range [of "seed rng"] drawIndex_le [of "lcg (seed rng)" "Suc k"]
  by (simp add: next_rand_nonneg floor_draw floor_draw' drawIndex_def swapEntries_def Let_def
           del: of_nat_Suc)

lemma shuffle_rounds:
  "m \<le> i \<Longrightarrow> 0 \<le> seed rng \<Longrightarrow>
   shuffle i p rng =
     (case shuffleRounds m i p (seed rng) of (p', s') \<Rightarrow> shuffle (i - m) p' (rng\<lparr>seed := s'\<rparr>))"
proof (induction m arbitrary: i p rng)
  case 0
  then show ?case by simp
next
  case (Suc m)
  then obtain k where i: "i = Suc k" by (cases i) auto
  have "shuffle i p rng =
        shuffle k (swapEntries p (Suc k) (drawIndex (lcg (seed rng)) (Suc k)))
           (rng\<lparr>seed := lcg (seed rng)\<rparr>)"
    using Suc.prems i by (simp only: shuffle_Suc_nonneg)
  also have "\<dots> = (case shuffleRounds m k (swapEntries p (Suc k) (drawIndex (lcg (seed rng)) (Suc k)))
                          (lcg (seed rng))
                     of (p', s') \<Rightarrow> shuffle (k - m) p' (rng\<lparr>seed := s'\<rparr>))"
    using Suc.prems i lcg_range [of "seed rng"]
    by (subst Suc.IH) simp_all
  finally show ?case using i by simp
qed

lemma shuffle_total:
  "0 \<le> seed rng \<Longrightarrow>
   shuffle i p rng = Some (fst (shuffleRounds i i p (seed rng)),
                           rng\<lparr>seed := snd (shuffleRounds i i p (seed rng))\<rparr>)"
  using shuffle_rounds [of i i rng p] by (simp add: split_beta)

lemma drawIndex_lcg_le: "drawIndex (lcg s) i \<le> i"
  using drawIndex_le [of "lcg s" i] lcg_range [of s] by (auto simp: drawIndex_def nat_le_iff)

lemma shuffleRounds_above:
  "i < k \<Longrightarrow> fst (shuffleRounds m i p s) ! k = p ! k"
proof (induction m arbitrary: i p s)
  case 0
  show ?case by simp
next
  case (Suc m)
  have "drawIndex (lcg s) i \<noteq> k" using drawIndex_lcg_le [of s i] Suc.prems by simp
  moreover have "i - 1 < k" using Suc.prems by simp
  ultimately show ?case using Suc.prems Suc.IH [of "i - 1"]
    by (simp add: swapEntries_def)
qed

lemma shuffleRounds_add:
  "shuffleRounds (m + m') i p s =
     (case shuffleRounds m i p s of (p1, s1) \<Rightarrow> shuffleRounds m' (i - m) p1 s1)"
  by (induction m arbitrary: i p s) simp_all

lemma shuffleRounds_prefix:
  assumes "m \<le> m2" "i - m < k"
  shows "fst (shuffleRounds m2 i p s) ! k = fst (shuffleRounds m i p s) ! k"
proof -
  from assms obtain m' where "m2 = m + m'" by (auto simp: le_iff_add)
  then show ?thesis
    using assms shuffleRounds_above [of "i - m" k m']
    by (simp add: shuffleRounds_add split_beta)
qed

lemma shuffleRounds_unfold:
  "shuffleRounds m i p s =
     (if m = 0 then (p, s)
      else shuffleRounds (m - 1) (i - 1) (swapEntries p i (drawIndex (lcg s) i)) (lcg s))"
  by (cases m) simp_all

lemma length_swapEntries [simp]: "length (swapEntries p i j) = length p"
  by (simp add: swapEntries_def)

lemma nth_swapEntries:
  "i < length p \<Longrightarrow> j < length p \<Longrightarrow>
   swapEntries p i j ! k = (if k = j then p ! i else if k = i then p ! j else p ! k)"
  by (auto simp: swapEntries_def nth_list_update)

lemma table42:
  "map (\<lambda>k. fst (shuffleRounds 15 255 (map int [0..<256]) 42) ! k) [241, 242, 244, 245, 254, 255]
     = [240, 230, 78, 247, 208, 226]"
  by (simp add: shuffleRounds_unfold lcg_def drawIndex_def nth_swapEntries)

lemma PerlinNoise_new_nonneg:
  assumes "0 \<le> s"
  shows "PerlinNoise_new s =
         Some \<lparr>permutation =
                 map (\<lambda>i. fst (shuffleRounds 255 255 (map int [0..<256]) s) ! nat (int i AND 255))
                   [0..<512]\<rparr>"
  using assms shuffle_total [of "SeededRandom_new s" 255 "map int [0..<256]"]
  by (simp add: PerlinNoise_new_def SeededRandom_new_def)

lemma perm42:
  assumes "k \<in> {241, 242, 244, 245, 254, 255}"
  shows "fst (shuffleRounds 255 255 (map int [0..<256]) 42) ! k =
         fst (shuffleRounds 15 255 (map int [0..<256]) 42) ! k"
  using assms by (intro shuffleRounds_prefix) auto

text \<open>
  Claim C9 says that \<open>noise2D\<close> answers a value in \<open>[0, 1]\<close>, and so does
  \<open>fbm2D\<close>. The noise field built from seed 42 answers \<open>8227 / 8192\<close>, which is above
  1, at the point \<open>(241.5, 14.25)\<close>; its \<open>fbm2D\<close> with a single octave and scale 1
  answers the same value.
\<close>

theorem noise2D_exceeds_one:
  "map_option (\<lambda>n. noise2D n (483 / 2) (57 / 4)) (PerlinNoise_new 42) = Some (8227 / 8192) \<and>
   map_option (\<lambda>n. fbm2D n (483 / 2) (57 / 4) 1 (1 / 2) 2 1) (PerlinNoise_new 42)
     = Some (Num (8227 / 8192)) \<and>
   (1 :: real) < 8227 / 8192"
proof -
  let ?T = "fst (shuffleRounds 255 255 (map int [0..<256]) 42)"
  have t: "?T ! 241 = 240" "?T ! 242 = 230" "?T ! 244 = 78" "?T ! 245 = 247"
          "?T ! 254 = 208" "?T ! 255 = 226"
    using table42 by (simp_all add: perm42)
  have f1: "\<lfloor>483 / 2 :: real\<rfloor> = 241" by linarith
  have f2: "\<lfloor>57 / 4 :: real\<rfloor> = 14" by linarith
  have n: "noise2D \<lparr>permutation = map (\<lambda>i. ?T ! nat (int i AND 255)) [0..<512]\<rparr>
             (483 / 2) (57 / 4) = 8227 / 8192"
    by (simp add: noise2D_def Let_def f1 f2 t grad_def fade_def lerp_def)
  have f: "fbm2D \<lparr>permutation = map (\<lambda>i. ?T ! nat (int i AND 255)) [0..<512]\<rparr>
             (483 / 2) (57 / 4) 1 (1 / 2) 2 1 = Num (8227 / 8192)"
    using n by (simp add: fbm2D_def js_div_def)
  show ?thesis
    using n f by (simp add: PerlinNoise_new_nonneg)
qed



subsection \<open>Determinism\<close>

lemma calls_on_Cons:
  "calls_on a ((r, c) # cs) = (if r = a then c # calls_on a cs else calls_on a cs)"
  by (simp add: calls_on_def)

lemma store_run_projection:
  assumes "\<forall>e \<in> set sched. fst e \<in> dom (objects h)"
  shows "\<exists>outs h'. store_run sched h = Some (outs, h') \<and>
           (\<forall>r ob. objects h r = Some ob \<longrightarrow>
              calls_on r outs = fst (rng_run (calls_on r sched) ob) \<and>
              objects h' r = Some (snd (rng_run (calls_on r sched) ob)))"
  using assms
proof (induction sched arbitrary: h)
  case Nil
  show ?case by (simp add: calls_on_def)
next
  case (Cons e sched)
  obtain a c where e: "e = (a, c)" by (cases e)
  from Cons.prems e obtain ra where ra: "objects h a = Some ra" by auto
  obtain v ra' where ex: "rng_exec c ra = (v, ra')" by (cases "rng_exec c ra")
  let ?h1 = "h\<lparr>objects := (objects h)(a \<mapsto> ra')\<rparr>"
  have sc: "store_call a c h = Some (v, ?h1)"
    by (simp add: store_call_def ra ex)
  have "\<forall>e \<in> set sched. fst e \<in> dom (objects ?h1)"
    using Cons.prems by auto
  from Cons.IH [OF this] obtain outs h' where
    run: "store_run sched ?h1 = Some (outs, h')" and
    proj: "\<And>r ob. objects ?h1 r = Some ob \<Longrightarrow>
              calls_on r outs = fst (rng_run (calls_on r sched) ob) \<and>
              objects h' r = Some (snd (rng_run (calls_on r sched) ob))"
    by blast
  have "store_run (e # sched) h = Some ((a, v) # outs, h')"
    by (simp add: e sc run)
  moreover have "calls_on r ((a, v) # outs) = fst (rng_run (calls_on r (e # sched)) ob) \<and>
                 objects h' r = Some (snd (rng_run (calls_on r (e # sched)) ob))"
    if ob: "objects h r = Some ob" for r ob
  proof (cases "r = a")
    case True
    with ob ra have "ob = ra" by simp
    moreover have "objects ?h1 a = Some ra'" by simp
    from proj [OF this] have "calls_on a outs = fst (rng_run (calls_on a sched) ra')"
      "objects h' a = Some (snd (rng_run (calls_on a sched) ra'))" by simp_all
    ultimately show ?thesis using True e ex
      by (simp add: calls_on_Cons split_beta)
  next
    case False
    with ob have "objects ?h1 r = Some ob" by simp
    from proj [OF this] show ?thesis using False e
      by (simp add: calls_on_Cons)
  qed
  ultimately show ?case by blast
qed

text \<open>
  Claim C2. Two generators constructed with the same seed and driven by the same call
  sequence answer the same values, however the calls on the two objects are interleaved,
  and the values are those of that call sequence on a single generator of that seed: a
  call reads and writes nothing but the object's own seed. Two noise fields constructed
  from the same seed answer the same \<open>noise2D\<close> and \<open>fbm2D\<close> values, the constructor
  and both queries being functions of the seed and the arguments only; a noise field
  exists for every non-negative seed.
\<close>

theorem same_seed_same_outputs:
  assumes na: "new_SeededRandom s h = (a, h1)"
      and nb: "new_SeededRandom s h1 = (b, h2)"
      and only: "\<forall>e \<in> set sched. fst e = a \<or> fst e = b"
      and same: "calls_on a sched = cs" "calls_on b sched = cs"
  shows "(\<exists>outs h3. store_run sched h2 = Some (outs, h3) \<and>
            calls_on a outs = calls_on b outs \<and>
            calls_on a outs = fst (rng_run cs (SeededRandom_new s))) \<and>
         (\<forall>n1 n2. PerlinNoise_new s = Some n1 \<and> PerlinNoise_new s = Some n2 \<longrightarrow>
            noise2D n1 x y = noise2D n2 x y \<and>
            fbm2D n1 x y oct pers lac sc = fbm2D n2 x y oct pers lac sc) \<and>
         (0 \<le> s \<longrightarrow> (\<exists>n. PerlinNoise_new s = Some n))"
proof -
  from na have a: "a = nextRef h" and
    h1: "h1 = h\<lparr>objects := (objects h)(nextRef h \<mapsto> SeededRandom_new s), nextRef := nextRef h + 1\<rparr>"
    by (auto simp: new_SeededRandom_def)
  from nb h1 have b: "b = nextRef h + 1" and
    oa: "objects h2 a = Some (SeededRandom_new s)" and
    ob: "objects h2 b = Some (SeededRandom_new s)"
    by (auto simp: new_SeededRandom_def a)
  have "\<forall>e \<in> set sched. fst e \<in> dom (objects h2)"
    using only oa ob by auto
  from store_run_projection [OF this] obtain outs h3 where
    run: "store_run sched h2 = Some (outs, h3)" and
    proj: "\<And>r ob. objects h2 r = Some ob \<Longrightarrow>
              calls_on r outs = fst (rng_run (calls_on r sched) ob)"
    by blast
  from proj [OF oa] proj [OF ob] same run
  have "\<exists>outs h3. store_run sched h2 = Some (outs, h3) \<and>
            calls_on a outs = calls_on b outs \<and>
            calls_on a outs = fst (rng_run cs (SeededRandom_new s))"
    by simp
  then show ?thesis
    by (auto simp: PerlinNoise_new_nonneg)
qed

theorem same_seed_same_outputs_witness:
  "\<exists>outs h3.
     store_run sched_example (snd (new_SeededRandom 42 (snd (new_SeededRandom 42 empty_store))))
       = Some (outs, h3) \<and>
     calls_on 0 outs = calls_on 1 outs \<and>
     calls_on 0 outs = [Some (206659 / 233280), Some (11921 / 1458), Some 6] \<and>
     (\<exists>n. PerlinNoise_new 42 = Some n)"
proof -
  let ?h1 = "snd (new_SeededRandom 42 empty_store)"
  let ?h2 = "snd (new_SeededRandom 42 ?h1)"
  have na: "new_SeededRandom 42 empty_store = (0, ?h1)"
    by (simp add: new_SeededRandom_def empty_store_def)
  have nb: "new_SeededRandom 42 ?h1 = (1, ?h2)"
    by (simp add: new_SeededRandom_def empty_store_def)
  have only: "\<forall>e \<in> set sched_example. fst e = 0 \<or> fst e = 1"
    by (simp add: sched_example_def)
  have ca: "calls_on 0 sched_example = [Next, Range 0 10, RangeInt 1 6]"
    by (simp add: sched_example_def calls_on_def)
  have cb: "calls_on 1 sched_example = [Next, Range 0 10, RangeInt 1 6]"
    by (simp add: sched_example_def calls_on_def)
  have pure: "fst (rng_run [Next, Range 0 10, RangeInt 1 6] (SeededRandom_new 42))
                = [Some (206659 / 233280), Some (11921 / 1458), Some 6]"
    by (simp add: next_rand_def range_rand_def rangeInt_def SeededRandom_new_def js_rem_def Let_def)
  from same_seed_same_outputs [OF na nb only ca cb] pure show ?thesis
    by auto
qed



subsection \<open>Activation and deactivation\<close>

lemma upt_0_2: "[0..<2] = [0, Suc 0]"
  by (simp add: numeral_2_eq_2)






lemma map_of_update: "map_of (AList.update k v cs) k' = (if k' = k then Some v else map_of cs k')"
  by (simp add: update_conv')















lemma acquired_append:
  "acquired p a q \<Longrightarrow> acquired q b r \<Longrightarrow> acquired p (a @ b) r"
  by (induction a arbitrary: p) auto







subsection \<open>Grid scenario\<close>

lemma sqrt_le_iff_sq: "0 \<le> y \<Longrightarrow> sqrt x \<le> y \<longleftrightarrow> x \<le> y * y"
proof -
  assume y: "0 \<le> y"
  have "sqrt x \<le> sqrt (y * y) \<longleftrightarrow> x \<le> y * y" by (rule real_sqrt_le_iff)
  then show ?thesis using y by simp
qed

text \<open>
  Claim C5. In the scenario (grid 2 by 2, cell size 10, no jitter, center at the origin),
  with the default chunk size 64, height offset 0 and capacity 10000, one \<open>update\<close> with
  the four chunks around the origin in view places exactly 4 instances, at
  \<open>(-5, 0, -5)\<close>, \<open>(-5, 0, 5)\<close>, \<open>(5, 0, -5)\<close> and \<open>(5, 0, 5)\<close>, whatever the global
  seed (42 in particular).
\<close>

theorem grid_scenario_places_four:
  "map_option (\<lambda>s. (placedPositions s, getActiveCount (instancePool s)))
     (update_Grid grid_example (cfg_example g) camera_example
        (init (ScatterSystem_new (cfg_example g))))
   = Some ([(- 5, 0, - 5), (- 5, 0, 5), (5, 0, - 5), (5, 0, 5)], 4)"
  by (simp add: update_Grid_def updateChunks_Grid_def init_def ScatterSystem_new_def camera_example_def
       gridScanX.simps gridScanZ.simps gridVisit_def isChunkInFrustum_def sqrt_le_iff_sq
       activateIfInactive_def activateChunk_def getChunkKey_def deactivateStale_def
       deactivateIfStale_def deactivateChunk_def
       populateChunk_Grid_def gridCell_def grid_example_def cfg_example_def containsPoint_def
       split_beta Let_def InstancePool_new_def acquire_def upt_0_2 converter_new_def
       setInstanceTransform_def placedPositions_def chunkHandles_def getActiveCount_def)


subsection \<open>Pool exhaustion during population\<close>

lemma radialAttempt_Accepted:
  "radialAttempt r cfg chunk b rng pool = Accepted rng' pool' pl \<Longrightarrow> acquired pool [fst pl] pool'"
  by (auto simp: radialAttempt_def Let_def split_beta split: if_splits option.splits prod.splits)

lemma radialLoop_acquired:
  "radialLoop r cfg chunk b targetCount maxAttempts placed attempts rng pool acc = (acc', pool') \<Longrightarrow>
   \<exists>new. acc' = acc @ new \<and> acquired pool (map fst new) pool'"
proof (induction r cfg chunk b targetCount maxAttempts placed attempts rng pool acc
         rule: radialLoop.induct)
  case (1 r cfg chunk b targetCount maxAttempts placed attempts rng pool acc)
  show ?case
  proof (cases "placed < targetCount \<and> attempts < maxAttempts")
    case False
    with "1.prems" show ?thesis by (simp add: radialLoop.simps)
  next
    case True
    show ?thesis
    proof (cases "radialAttempt r cfg chunk b rng pool")
      case (Rejected rng')
      with True "1.prems"
      have "radialLoop r cfg chunk b targetCount maxAttempts placed (attempts + 1) rng' pool acc
              = (acc', pool')"
        by (simp add: radialLoop.simps [of r cfg chunk b targetCount maxAttempts placed attempts])
      from "1.IH"(1) [OF True Rejected this] show ?thesis .
    next
      case (Exhausted rng')
      with True "1.prems" show ?thesis
        by (simp add: radialLoop.simps [of r cfg chunk b targetCount maxAttempts placed attempts])
    next
      case (Accepted rng' q pl)
      with True "1.prems"
      have "radialLoop r cfg chunk b targetCount maxAttempts (placed + 1) (attempts + 1) rng' q
              (acc @ [pl]) = (acc', pool')"
        by (simp add: radialLoop.simps [of r cfg chunk b targetCount maxAttempts placed attempts])
      from "1.IH"(2) [OF True Accepted this] obtain new where
        n: "acc' = (acc @ [pl]) @ new" "acquired q (map fst new) pool'" by blast
      from radialAttempt_Accepted [OF Accepted] n(2)
      have "acquired pool (map fst (pl # new)) pool'"
        using acquired_append [of pool "[fst pl]" q "map fst new" pool'] by simp
      with n(1) show ?thesis by auto
    qed
  qed
qed

lemma pool_client_Radial: "pool_client (populateChunk_Radial r cfg)"
  unfolding pool_client_def
proof (intro allI)
  fix chunk x z p
  obtain a q where f: "populateChunk_Radial r cfg chunk x z p = (a, q)"
    by (cases "populateChunk_Radial r cfg chunk x z p")
  then have "\<exists>new. a = [] @ new \<and> acquired p (map fst new) q"
    unfolding populateChunk_Radial_def Let_def by (rule radialLoop_acquired)
  with f show "acquired p (map fst (fst (populateChunk_Radial r cfg chunk x z p)))
                 (snd (populateChunk_Radial r cfg chunk x z p))"
    by simp
qed

lemma acquire_no_capacity: "\<not> hasCapacity p \<Longrightarrow> acquire p = (None, p)"
  by (simp add: hasCapacity_def acquire_def)

lemma acquired_no_capacity: "\<not> hasCapacity p \<Longrightarrow> acquired p ids p' \<Longrightarrow> ids = [] \<and> p' = p"
  by (cases ids) (simp_all add: acquire_no_capacity)

text \<open>
  Claim C7. In the placement loop of the radial strategy a \<open>null\<close> from the pool ends the
  loop at once with the placements made so far; no step of population or activation can
  fail. After \<open>activateChunk\<close> the chunk is in the map and active, it holds exactly the
  handles that were acquired, and the activation event reports their number; with a pool
  that has no capacity left the chunk is activated with no instance, the pool is
  unchanged and the event reports 0.
\<close>

theorem pool_exhaustion_is_silent:
  assumes s': "s' = activateChunk (populateChunk_Radial r cfg) cfg x z s"
  shows "(placed < targetCount \<and> attempts < maxAttempts \<and>
          radialAttempt r cfg chunk b rng pool = Exhausted rng' \<longrightarrow>
          radialLoop r cfg chunk b targetCount maxAttempts placed attempts rng pool acc = (acc, pool)) \<and>
         (\<exists>c. map_of (chunks s') (getChunkKey x z) = Some c \<and> isActive c \<and>
               acquired (instancePool s) (instances c) (instancePool s') \<and>
               events s' = events s @ [ChunkActivated (getChunkKey x z) (length (instances c))]) \<and>
         (\<not> hasCapacity (instancePool s) \<longrightarrow>
            (\<exists>c. map_of (chunks s') (getChunkKey x z) = Some c \<and> isActive c \<and> instances c = []) \<and>
            instancePool s' = instancePool s \<and>
            events s' = events s @ [ChunkActivated (getChunkKey x z) 0])"
proof -
  have A: "placed < targetCount \<and> attempts < maxAttempts \<and>
          radialAttempt r cfg chunk b rng pool = Exhausted rng' \<longrightarrow>
          radialLoop r cfg chunk b targetCount maxAttempts placed attempts rng pool acc = (acc, pool)"
    by (simp add: radialLoop.simps [of r cfg chunk b targetCount maxAttempts placed attempts])
  let ?chunk0 = "\<lparr>instances = [], isActive = True,
       noiseGenerator = PerlinNoise_new (chunkSeed x z (randomSeed cfg)),
       bounds = \<lparr>minX = x - chunkSize cfg / 2, minY = Num (- 1000), minZ = z - chunkSize cfg / 2,
                 maxX = x + chunkSize cfg / 2, maxY = Num 1000, maxZ = z + chunkSize cfg / 2\<rparr>\<rparr>"
  obtain placed' pool' where pp:
    "populateChunk_Radial r cfg ?chunk0 x z (instancePool s) = (placed', pool')"
    by (cases "populateChunk_Radial r cfg ?chunk0 x z (instancePool s)")
  from pool_client_Radial [of r cfg] pp
  have acq: "acquired (instancePool s) (map fst placed') pool'"
    unfolding pool_client_def by (metis fst_conv snd_conv)
  have st: "instancePool s' = pool'"
    "map_of (chunks s') (getChunkKey x z) = Some (?chunk0\<lparr>instances := map fst placed'\<rparr>)"
    "events s' = events s @ [ChunkActivated (getChunkKey x z) (length placed')]"
    using pp by (simp_all add: s' activateChunk_def Let_def map_of_update)
  have B: "\<exists>c. map_of (chunks s') (getChunkKey x z) = Some c \<and> isActive c \<and>
               acquired (instancePool s) (instances c) (instancePool s') \<and>
               events s' = events s @ [ChunkActivated (getChunkKey x z) (length (instances c))]"
    using st acq by simp
  have C: "(\<exists>c. map_of (chunks s') (getChunkKey x z) = Some c \<and> isActive c \<and> instances c = []) \<and>
            instancePool s' = instancePool s \<and>
            events s' = events s @ [ChunkActivated (getChunkKey x z) 0]"
    if "\<not> hasCapacity (instancePool s)"
    using acquired_no_capacity [OF that acq] st by simp
  from A B C show ?thesis by blast
qed

theorem pool_exhaustion_is_silent_witness:
  "radialLoop radial_example cfg_small chunk_example box_example 4096 20480 0 0
     (SeededRandom_new 42) full_pool_example [] = ([], full_pool_example) \<and>
   (\<exists>c. map_of (chunks (activateChunk (populateChunk_Radial radial_example cfg_small) cfg_small 32 32
                          (ScatterSystem_new cfg_small))) (32, 32) = Some c \<and>
        isActive c \<and> instances c = [0, 1]) \<and>
   events (activateChunk (populateChunk_Radial radial_example cfg_small) cfg_small 32 32
             (ScatterSystem_new cfg_small)) = [ChunkActivated (32, 32) 2] \<and>
   (\<exists>c. map_of (chunks (activateChunk (populateChunk_Radial radial_example cfg_small) cfg_small 32 32
                          ((ScatterSystem_new cfg_small)\<lparr>instancePool := full_pool_example\<rparr>)))
           (32, 32) = Some c \<and>
        isActive c \<and> instances c = []) \<and>
   events (activateChunk (populateChunk_Radial radial_example cfg_small) cfg_small 32 32
             ((ScatterSystem_new cfg_small)\<lparr>instancePool := full_pool_example\<rparr>))
     = [ChunkActivated (32, 32) 0]"
proof -
  let ?s0 = "ScatterSystem_new cfg_small"
  let ?sf = "?s0\<lparr>instancePool := full_pool_example\<rparr>"
  have at: "radialAttempt radial_example cfg_small chunk_example box_example (SeededRandom_new 42)
              full_pool_example = Exhausted \<lparr>seed = 223713\<rparr>"
    by (simp add: radialAttempt_def radial_example_def cfg_small_def cfg_example_def
        full_pool_example_def box_example_def chunk_example_def
        acquire_def containsPoint_def shouldPlaceInstance_def range_rand_def next_rand_def
        SeededRandom_new_def js_rem_def split_beta Let_def)
  have full: "\<not> hasCapacity (instancePool ?sf)"
    by (simp add: hasCapacity_def full_pool_example_def)
  have key: "getChunkKey 32 32 = (32, 32)"
    by (simp add: getChunkKey_def)
  have ev0: "events ?sf = []"
    by (simp add: ScatterSystem_new_def)
  have run: "map_of (chunks (activateChunk (populateChunk_Radial radial_example cfg_small) cfg_small 32 32 ?s0))
               (32, 32)
             = Some \<lparr>instances = [0, 1], isActive = True,
                     noiseGenerator = PerlinNoise_new (chunkSeed 32 32 42),
                     bounds = \<lparr>minX = 0, minY = Num (- 1000), minZ = 0,
                               maxX = 64, maxY = Num 1000, maxZ = 64\<rparr>\<rparr> \<and>
             events (activateChunk (populateChunk_Radial radial_example cfg_small) cfg_small 32 32 ?s0)
             = [ChunkActivated (32, 32) 2]"
    by (simp add: activateChunk_def populateChunk_Radial_def radialLoop.simps radialAttempt_def
        radial_example_def cfg_small_def cfg_example_def ScatterSystem_new_def InstancePool_new_def
        acquire_def containsPoint_def shouldPlaceInstance_def range_rand_def split_beta Let_def
        getChunkKey_def)
  from pool_exhaustion_is_silent
         [where s = ?sf and r = radial_example and cfg = cfg_small and x = 32 and z = 32
            and placed = 0 and targetCount = 4096 and attempts = 0 and maxAttempts = 20480
            and chunk = chunk_example and b = box_example and rng = "SeededRandom_new 42"
            and pool = full_pool_example and rng' = "\<lparr>seed = 223713\<rparr>" and acc = "[]",
          OF refl]
       at full key ev0
  have "radialLoop radial_example cfg_small chunk_example box_example 4096 20480 0 0
          (SeededRandom_new 42) full_pool_example [] = ([], full_pool_example) \<and>
        (\<exists>c. map_of (chunks (activateChunk (populateChunk_Radial radial_example cfg_small) cfg_small 32 32 ?sf))
                (32, 32) = Some c \<and> isActive c \<and> instances c = []) \<and>
        events (activateChunk (populateChunk_Radial radial_example cfg_small) cfg_small 32 32 ?sf)
          = [ChunkActivated (32, 32) 0]"
    by simp
  with run show ?thesis by simp
qed



subsection \<open>Degenerate curves\<close>

lemma curveParam_regular:
  assumes "2 \<le> n" "i < n"
  shows "\<exists>t. curveParam i n = Num t \<and> 0 \<le> t \<and> t \<le> 1"
proof -
  have "real_of_int (int n - 1) > 0" using assms by simp
  moreover have "real i \<le> real_of_int (int n - 1)" using assms by simp
  ultimately show ?thesis
    by (simp add: curveParam_def js_div_def)
qed

text \<open>
  Claim C8 says that a point list of at most one point never leads to a division by
  \<open>pointCount - 1\<close>, the placement being rejected or made at the single point. The code
  has no such guard. On a single-point list \<open>populateChunk\<close> computes the parameter
  \<open>0 / 0\<close>, which is NaN; with two handles the NaN index reads \<open>undefined\<close> and the
  placement raises a TypeError with the acquired handle still active in the pool; and
  \<open>generateCurvePoints\<close> raises a TypeError when it looks for the predecessor of the only
  point.
\<close>

theorem single_point_curve_unguarded:
  "curveParam 0 1 = NaN \<and>
   generateCurvePoints [(1, 0, 1)] curve_example
     = Inl (TypeError, curve_example\<lparr>curvePoints := [(1, 0, 1)]\<rparr>) \<and>
   populateChunk_Curve m curve_example (cfg_example 42) chunk 32 32 (InstancePool_new 10000)
     = Inl (TypeError,
            \<lparr>activeInstances = {0}, freeIds = [], nextId = 1, maxInstances = 10000\<rparr>)"
proof -
  have a: "curveParam 0 1 = NaN"
    by (simp add: curveParam_def js_div_def)
  have a': "curveParam 0 (Suc 0) = NaN"
    by (simp add: curveParam_def js_div_def)
  have b: "generateCurvePoints [(1, 0, 1)] curve_example
             = Inl (TypeError, curve_example\<lparr>curvePoints := [(1, 0, 1)]\<rparr>)"
    by (simp add: generateCurvePoints_def tangentAt_def js_nth_def Let_def)
  have c: "populateChunk_Curve m curve_example (cfg_example 42) chunk 32 32 (InstancePool_new 10000)
     = Inl (TypeError,
            \<lparr>activeInstances = {0}, freeIds = [], nextId = 1, maxInstances = 10000\<rparr>)"
    by (simp add: populateChunk_Curve_def curve_example_def cfg_example_def containsPoint_def a'
          js_nth_def curveInstance_def handlesAt_def InstancePool_new_def acquire_def
          split_beta Let_def)
  from a b c show ?thesis by simp
qed


end
